theory Spec2Isabelle
  imports Complex_Main
begin

section \<open>Numbers, arrays and errors\<close>

text \<open>
  The two scripts compute with Python integers, Python floats and NumPy arrays of doubles.
  Integers are \<open>int\<close>. Doubles are modelled by the real numbers (and complex doubles by
  \<open>complex\<close>), so the functions below compute in exact arithmetic; overflow and
  infinities are outside the model. Where a property turns on the rounding of one double
  operation, that operation is written with \<open>round_double\<close> (see the section on double
  rounding). The one not-a-number that the code can produce from finite data, the mean of
  an empty array, is kept as \<open>None\<close>. One-dimensional arrays are lists. Exceptions are
  values of \<open>py_error\<close>.
\<close>

datatype py_error = ZeroDivisionError | ValueError | IndexError

definition bindE :: "py_error + 'a \<Rightarrow> ('a \<Rightarrow> py_error + 'b) \<Rightarrow> py_error + 'b" where
  "bindE m f = (case m of Inl err \<Rightarrow> Inl err | Inr v \<Rightarrow> f v)"

text \<open>\<^verbatim>\<open>np.zeros(n)\<close>: a negative dimension raises ValueError.\<close>

definition np_zeros :: "int \<Rightarrow> py_error + real list" where
  "np_zeros n = (if n < 0 then Inl ValueError else Inr (replicate (nat n) 0))"

text \<open>\<^verbatim>\<open>a[start::2]\<close> for \<open>start\<close> 0 or 1: a strided view of every second entry.\<close>

definition stride2 :: "nat \<Rightarrow> 'a list \<Rightarrow> 'a list" where
  "stride2 start a = map (\<lambda>i. a ! (2 * i + start)) [0..<(length a + 1 - start) div 2]"

text \<open>
  NumPy broadcasting of a one-dimensional operand into a target of \<open>n\<close> entries: equal
  length is taken as it is, a single entry is repeated, anything else raises ValueError.
\<close>

definition broadcast_to :: "nat \<Rightarrow> 'a list \<Rightarrow> py_error + 'a list" where
  "broadcast_to n b =
     (if length b = n then Inr b
      else if length b = 1 then Inr (replicate n (hd b))
      else Inl ValueError)"

text \<open>\<^verbatim>\<open>a += b\<close> on arrays: \<open>b\<close> is broadcast to the shape of \<open>a\<close>.\<close>

definition iadd :: "real list \<Rightarrow> real list \<Rightarrow> py_error + real list" where
  "iadd a b = bindE (broadcast_to (length a) b) (\<lambda>b'. Inr (map2 (+) a b'))"

text \<open>\<^verbatim>\<open>a[start::2] = v\<close>: \<open>v\<close> is broadcast to the strided view and written into it.\<close>

definition assign_stride2 :: "nat \<Rightarrow> real list \<Rightarrow> real list \<Rightarrow> py_error + real list" where
  "assign_stride2 start a v =
     bindE (broadcast_to (length (stride2 start a)) v)
       (\<lambda>v'. Inr (map (\<lambda>j. if j mod 2 = start then v' ! (j div 2) else a ! j) [0..<length a]))"

text \<open>\<^verbatim>\<open>np.mean\<close>: the mean of an empty array is nan (a warning, no exception).\<close>

definition np_mean :: "real list \<Rightarrow> real option" where
  "np_mean xs = (if xs = [] then None else Some (sum_list xs / real (length xs)))"

text \<open>\<^verbatim>\<open>np.mod(x, m)\<close> on doubles: the remainder has the sign of the divisor.\<close>

definition np_mod :: "real \<Rightarrow> real \<Rightarrow> real" where
  "np_mod x m = x - m * of_int \<lfloor>x / m\<rfloor>"

text \<open>
  \<^verbatim>\<open>np.random.normal(0, scale, size)\<close> and \<^verbatim>\<open>np.random.uniform(0, high, size)\<close>:
  the random source is external, so the drawn numbers are a parameter (the \<open>i\<close>-th draw);
  a negative size or scale raises ValueError.
\<close>

definition np_random_normal :: "(nat \<Rightarrow> real) \<Rightarrow> real \<Rightarrow> int \<Rightarrow> py_error + real list" where
  "np_random_normal draw scale n =
     (if scale < 0 \<or> n < 0 then Inl ValueError else Inr (map draw [0..<nat n]))"

definition np_random_uniform :: "(nat \<Rightarrow> real) \<Rightarrow> int \<Rightarrow> py_error + real list" where
  "np_random_uniform draw n =
     (if n < 0 then Inl ValueError else Inr (map draw [0..<nat n]))"

section \<open>Configuration\<close>

text \<open>
  The module-level assignments of the two scripts. \<open>const_e\<close>, \<open>const_m_e\<close>, \<open>const_c\<close>
  and \<open>const_epsilon_0\<close> are the values imported from \<^verbatim>\<open>scipy.constants\<close>. The harmonic
  script reads \<open>I_peak_avg\<close>, \<open>beam_radius\<close> and \<open>N_harmonics_Ez\<close>; the grid script reads
  \<open>I_avg_beam\<close>, \<open>beam_radius_transverse\<close> and \<open>N_grid_s\<close>; the other fields are
  assigned by both.
\<close>

record config =
  const_e :: real
  const_m_e :: real
  const_c :: real
  const_epsilon_0 :: real
  drift_length_ode :: real
  N_particles :: int
  lambda_laser :: real
  gamma_ref :: real
  sigma_eta0_rel :: real
  A_mod_over_sigma_eta0 :: real
  I_peak_avg :: real
  beam_radius :: real
  N_harmonics_Ez :: int
  I_avg_beam :: real
  beam_radius_transverse :: real
  N_grid_s :: int

definition k_laser :: "config \<Rightarrow> real" where
  "k_laser cfg = 2 * pi / lambda_laser cfg"

definition A_mod :: "config \<Rightarrow> real" where
  "A_mod cfg = A_mod_over_sigma_eta0 cfg * sigma_eta0_rel cfg"

definition B_hghg :: "config \<Rightarrow> real" where
  "B_hghg cfg = 1 / A_mod_over_sigma_eta0 cfg"

definition R56 :: "config \<Rightarrow> real" where
  "R56 cfg = B_hghg cfg / (k_laser cfg * sigma_eta0_rel cfg)"

definition gamma_ref_sq :: "config \<Rightarrow> real" where
  "gamma_ref_sq cfg = (gamma_ref cfg)\<^sup>2"

section \<open>Variant H: harmonic summation\<close>

definition n0_avg :: "config \<Rightarrow> real" where
  "n0_avg cfg = I_peak_avg cfg / (const_e cfg * const_c cfg * pi * (beam_radius cfg)\<^sup>2)"

definition Ez_const_factor :: "config \<Rightarrow> real" where
  "Ez_const_factor cfg = (2 * const_e cfg * n0_avg cfg) / (const_epsilon_0 cfg * k_laser cfg)"

definition eta_change_factor :: "config \<Rightarrow> real" where
  "eta_change_factor cfg = - const_e cfg / (gamma_ref cfg * const_m_e cfg * (const_c cfg)\<^sup>2)"

definition theta_change_factor :: "config \<Rightarrow> real" where
  "theta_change_factor cfg = k_laser cfg / gamma_ref_sq cfg"

text \<open>
  The first loop of \<^verbatim>\<open>collective_ode\<close>: for \<open>n_h\<close> from 1 to \<open>N_harmonics_Ez\<close>,
  \<^verbatim>\<open>bn_array[n_h-1] = np.mean(np.cos(n_h * current_theta))\<close>.
\<close>

fun bn_loop :: "real list \<Rightarrow> int list \<Rightarrow> real option list \<Rightarrow> real option list" where
  "bn_loop current_theta [] bn_array = bn_array"
| "bn_loop current_theta (n_h # rest) bn_array =
     bn_loop current_theta rest
       (bn_array[nat (n_h - 1) := np_mean (map (\<lambda>t. cos (of_int n_h * t)) current_theta)])"

definition bn_array_of :: "config \<Rightarrow> real list \<Rightarrow> py_error + real option list" where
  "bn_array_of cfg current_theta =
     (if N_harmonics_Ez cfg < 0 then Inl ValueError
      else Inr (bn_loop current_theta [1..N_harmonics_Ez cfg]
                  (replicate (nat (N_harmonics_Ez cfg)) (Some 0))))"

text \<open>
  \<^verbatim>\<open>(bn_array[n_h-1] / n_h) * np.sin(n_h * current_theta)\<close>: an array of the shape of
  \<open>current_theta\<close>. A bunching factor is nan only for an empty ensemble, where this
  product is the empty array.
\<close>

fun harmonic_term :: "real option \<Rightarrow> int \<Rightarrow> real list \<Rightarrow> real list" where
  "harmonic_term (Some b) n_h current_theta =
     map (\<lambda>t. (b / of_int n_h) * sin (of_int n_h * t)) current_theta"
| "harmonic_term None n_h current_theta = map (\<lambda>t. 0) current_theta"

text \<open>
  The second loop: \<^verbatim>\<open>if bn_array[n_h-1] != 0 and n_h != 0: sum_terms_for_Ez += ...\<close>
  (nan compares unequal to 0).
\<close>

fun sum_loop ::
  "real list \<Rightarrow> real option list \<Rightarrow> int list \<Rightarrow> real list \<Rightarrow> py_error + real list" where
  "sum_loop current_theta bn_array [] sum_terms_for_Ez = Inr sum_terms_for_Ez"
| "sum_loop current_theta bn_array (n_h # rest) sum_terms_for_Ez =
     (if bn_array ! nat (n_h - 1) \<noteq> Some 0 \<and> n_h \<noteq> 0
      then bindE (iadd sum_terms_for_Ez
                    (harmonic_term (bn_array ! nat (n_h - 1)) n_h current_theta))
             (sum_loop current_theta bn_array rest)
      else sum_loop current_theta bn_array rest sum_terms_for_Ez)"

definition Ez_particles_of :: "config \<Rightarrow> real list \<Rightarrow> py_error + real list" where
  "Ez_particles_of cfg current_theta =
     bindE (bn_array_of cfg current_theta) (\<lambda>bn_array.
     bindE (np_zeros (N_particles cfg)) (\<lambda>zeros.
     bindE (sum_loop current_theta bn_array [1..N_harmonics_Ez cfg] zeros)
       (\<lambda>sum_terms_for_Ez.
     Inr (map (\<lambda>s. - Ez_const_factor cfg * s) sum_terms_for_Ez))))"

definition collective_ode :: "config \<Rightarrow> real \<Rightarrow> real list \<Rightarrow> py_error + real list" where
  "collective_ode cfg z Y =
     (let dYdz = map (\<lambda>y. 0) Y;
          current_eta = stride2 0 Y;
          current_theta = stride2 1 Y
      in bindE (Ez_particles_of cfg current_theta) (\<lambda>Ez_particles.
         bindE (assign_stride2 0 dYdz (map (\<lambda>E. eta_change_factor cfg * E) Ez_particles))
           (\<lambda>dYdz.
         assign_stride2 1 dYdz (map (\<lambda>h. theta_change_factor cfg * h) current_eta))))"

text \<open>
  Module-level initialisation of the harmonic script, in the order of its statements. A
  division of two Python floats raises ZeroDivisionError on a zero divisor. The result is
  the initial state \<open>Y0\<close> handed to \<^verbatim>\<open>solve_ivp\<close>.
\<close>

definition init_H :: "config \<Rightarrow> (nat \<Rightarrow> real) \<Rightarrow> (nat \<Rightarrow> real) \<Rightarrow> py_error + real list" where
  "init_H cfg normal_draw uniform_draw =
     (if lambda_laser cfg = 0 then Inl ZeroDivisionError
      else if (gamma_ref cfg)\<^sup>2 = 0 then Inl ZeroDivisionError
      else if A_mod_over_sigma_eta0 cfg = 0 then Inl ZeroDivisionError
      else if k_laser cfg * sigma_eta0_rel cfg = 0 then Inl ZeroDivisionError
      else if const_e cfg * const_c cfg * pi * (beam_radius cfg)\<^sup>2 = 0
        then Inl ZeroDivisionError
      else
        bindE (np_random_normal normal_draw (sigma_eta0_rel cfg) (N_particles cfg))
          (\<lambda>eta0_particles.
        bindE (np_random_uniform uniform_draw (N_particles cfg)) (\<lambda>theta0_particles.
        let eta1_particles =
              map2 (\<lambda>h t. h + A_mod cfg * sin t) eta0_particles theta0_particles;
            theta1_particles = theta0_particles;
            eta_init_ode = eta1_particles;
            theta_init_ode =
              map2 (\<lambda>t h. np_mod (np_mod (t + k_laser cfg * R56 cfg * h) (2 * pi)) (2 * pi))
                theta1_particles eta1_particles
        in
        bindE (np_zeros (2 * N_particles cfg)) (\<lambda>Y0.
        bindE (assign_stride2 0 Y0 eta_init_ode) (\<lambda>Y0.
        bindE (assign_stride2 1 Y0 theta_init_ode) (\<lambda>Y0.
        if const_epsilon_0 cfg * k_laser cfg = 0 then Inl ZeroDivisionError
        else if gamma_ref cfg * const_m_e cfg * (const_c cfg)\<^sup>2 = 0
          then Inl ZeroDivisionError
        else if gamma_ref_sq cfg = 0 then Inl ZeroDivisionError
        else Inr Y0))))))"

section \<open>Variant G: grid density and FFT field solve\<close>

definition period_length_s :: "config \<Rightarrow> real" where
  "period_length_s cfg = lambda_laser cfg"

definition beam_area_transverse :: "config \<Rightarrow> real" where
  "beam_area_transverse cfg = pi * (beam_radius_transverse cfg)\<^sup>2"

definition T_laser_period :: "config \<Rightarrow> real" where
  "T_laser_period cfg = lambda_laser cfg / const_c cfg"

definition Q_total_in_one_period :: "config \<Rightarrow> real" where
  "Q_total_in_one_period cfg = I_avg_beam cfg * T_laser_period cfg"

definition Q_macro :: "config \<Rightarrow> real" where
  "Q_macro cfg = Q_total_in_one_period cfg / of_int (N_particles cfg)"

definition ds_grid :: "config \<Rightarrow> real" where
  "ds_grid cfg = period_length_s cfg / of_int (N_grid_s cfg)"

text \<open>
  \<^verbatim>\<open>fftfreq(n, d)\<close>: the integers \<open>0, \<dots>, (n-1)//2\<close> followed by \<open>-(n//2), \<dots>, -1\<close>,
  each times \<open>1/(n*d)\<close>.
\<close>

definition fftfreq :: "int \<Rightarrow> real \<Rightarrow> real list" where
  "fftfreq n d =
     map (\<lambda>i. of_int (if i < (n - 1) div 2 + 1 then i else i - n) * (1 / (of_int n * d)))
       [0..n - 1]"

definition k_s_grid_fft :: "config \<Rightarrow> real list" where
  "k_s_grid_fft cfg = map (\<lambda>f. f * 2 * pi) (fftfreq (N_grid_s cfg) (ds_grid cfg))"

definition eta_change_factor_ode :: "config \<Rightarrow> real" where
  "eta_change_factor_ode cfg = - 1 / (gamma_ref cfg * const_m_e cfg * (const_c cfg)\<^sup>2)"

definition s_change_factor_ode :: "config \<Rightarrow> real" where
  "s_change_factor_ode cfg = 1 / gamma_ref_sq cfg"

text \<open>
  \<^verbatim>\<open>np.histogram(a, bins=n, range=(lo, hi))\<close> with an integer number of equal bins: values
  outside the closed range are dropped, the last bin is closed on the right. A bin count
  below 1 or a reversed range raises ValueError; an empty range is widened by one half on
  each side.
\<close>

definition np_histogram :: "real list \<Rightarrow> int \<Rightarrow> real \<Rightarrow> real \<Rightarrow> py_error + nat list" where
  "np_histogram a bins lo hi =
     (if bins < 1 then Inl ValueError
      else if lo > hi then Inl ValueError
      else
        let first_edge = (if lo = hi then lo - 1 / 2 else lo);
            last_edge = (if lo = hi then hi + 1 / 2 else hi);
            bin_of = (\<lambda>x. min \<lfloor>(x - first_edge) / (last_edge - first_edge) * of_int bins\<rfloor>
                              (bins - 1))
        in Inr (map (\<lambda>j. length (filter (\<lambda>x. first_edge \<le> x \<and> x \<le> last_edge \<and> bin_of x = j) a))
                  [0..bins - 1]))"

text \<open>The discrete Fourier transform and its inverse, as \<^verbatim>\<open>scipy.fft\<close> normalises them.\<close>

definition fft :: "complex list \<Rightarrow> complex list" where
  "fft x =
     map (\<lambda>k. \<Sum>j\<leftarrow>[0..<length x]. x ! j * cis (- (2 * pi * real j * real k / real (length x))))
       [0..<length x]"

definition ifft :: "complex list \<Rightarrow> complex list" where
  "ifft X =
     map (\<lambda>j. (\<Sum>k\<leftarrow>[0..<length X]. X ! k * cis (2 * pi * real j * real k / real (length X)))
                / of_nat (length X))
       [0..<length X]"

text \<open>\<^verbatim>\<open>np.clip(x, lo, hi)\<close> is \<^verbatim>\<open>minimum(maximum(x, lo), hi)\<close>.\<close>

definition np_clip :: "int \<Rightarrow> int \<Rightarrow> int \<Rightarrow> int" where
  "np_clip x lo hi = min (max x lo) hi"

text \<open>
  Indexing an array with an integer: a negative index counts from the end, an index
  outside \<open>[-n, n)\<close> raises IndexError. \<open>np_take_all\<close> is indexing with an index array.
\<close>

definition np_take :: "'a list \<Rightarrow> int \<Rightarrow> py_error + 'a" where
  "np_take a i =
     (if 0 \<le> i \<and> i < int (length a) then Inr (a ! nat i)
      else if - int (length a) \<le> i \<and> i < 0 then Inr (a ! nat (int (length a) + i))
      else Inl IndexError)"

fun np_take_all :: "'a list \<Rightarrow> int list \<Rightarrow> py_error + 'a list" where
  "np_take_all a [] = Inr []"
| "np_take_all a (i # rest) =
     bindE (np_take a i) (\<lambda>v. bindE (np_take_all a rest) (\<lambda>vs. Inr (v # vs)))"

text \<open>The steps of \<^verbatim>\<open>collective_ode_fft\<close>, in the order of the source.\<close>

definition current_s_mod_of :: "config \<Rightarrow> real list \<Rightarrow> real list" where
  "current_s_mod_of cfg Y = map (\<lambda>s. np_mod s (period_length_s cfg)) (stride2 1 Y)"

definition rho_s_of :: "config \<Rightarrow> nat list \<Rightarrow> real list" where
  "rho_s_of cfg counts =
     map (\<lambda>cnt. (- Q_macro cfg) * real cnt / (ds_grid cfg * beam_area_transverse cfg)) counts"

definition rho_ac_s_of :: "real list \<Rightarrow> real list" where
  "rho_ac_s_of rho_s =
     (case np_mean rho_s of None \<Rightarrow> [] | Some m \<Rightarrow> map (\<lambda>r. r - m) rho_s)"

text \<open>
  \<^verbatim>\<open>Ez_fft\<close> starts as zeros; the entries where \<^verbatim>\<open>k_s_grid_fft != 0\<close> are set to
  \<^verbatim>\<open>rho_ac_fft / (1j * k_s_grid_fft * epsilon_0)\<close>, those where it is 0 are set to 0.
\<close>

definition Ez_fft_of :: "config \<Rightarrow> complex list \<Rightarrow> complex list" where
  "Ez_fft_of cfg rho_ac_fft =
     map (\<lambda>j. if k_s_grid_fft cfg ! j \<noteq> 0
               then rho_ac_fft ! j /
                    (\<i> * of_real (k_s_grid_fft cfg ! j) * of_real (const_epsilon_0 cfg))
               else 0)
       [0..<length rho_ac_fft]"

definition Ez_complex_grid_of :: "config \<Rightarrow> real list \<Rightarrow> complex list" where
  "Ez_complex_grid_of cfg rho_s = ifft (Ez_fft_of cfg (fft (map of_real (rho_ac_s_of rho_s))))"

definition Ez_s_grid_of :: "config \<Rightarrow> real list \<Rightarrow> real list" where
  "Ez_s_grid_of cfg rho_s = map Re (Ez_complex_grid_of cfg rho_s)"

definition particle_grid_index :: "config \<Rightarrow> real \<Rightarrow> int" where
  "particle_grid_index cfg s_mod = np_clip \<lfloor>s_mod / ds_grid cfg\<rfloor> 0 (N_grid_s cfg - 1)"

definition Ez_s_grid_at :: "config \<Rightarrow> real list \<Rightarrow> py_error + real list" where
  "Ez_s_grid_at cfg Y =
     bindE (np_histogram (current_s_mod_of cfg Y) (N_grid_s cfg) 0 (period_length_s cfg))
       (\<lambda>counts. Inr (Ez_s_grid_of cfg (rho_s_of cfg counts)))"

definition Ez_particles_interp_of :: "config \<Rightarrow> real list \<Rightarrow> py_error + real list" where
  "Ez_particles_interp_of cfg Y =
     bindE (Ez_s_grid_at cfg Y) (\<lambda>Ez_s_grid.
     bindE (np_take_all Ez_s_grid (map (particle_grid_index cfg) (current_s_mod_of cfg Y)))
       (\<lambda>sampled. Inr (map uminus sampled)))"

definition collective_ode_fft :: "config \<Rightarrow> real \<Rightarrow> real list \<Rightarrow> py_error + real list" where
  "collective_ode_fft cfg z Y =
     (let dYdz = map (\<lambda>y. 0) Y;
          current_eta = stride2 0 Y
      in bindE (Ez_particles_interp_of cfg Y) (\<lambda>Ez_particles_interp.
         bindE (assign_stride2 0 dYdz
                  (map (\<lambda>E. (- const_e cfg) * E * eta_change_factor_ode cfg) Ez_particles_interp))
           (\<lambda>dYdz.
         assign_stride2 1 dYdz (map (\<lambda>h. s_change_factor_ode cfg * h) current_eta))))"

text \<open>Module-level initialisation of the grid script, in the order of its statements.\<close>

definition init_G :: "config \<Rightarrow> (nat \<Rightarrow> real) \<Rightarrow> (nat \<Rightarrow> real) \<Rightarrow> py_error + real list" where
  "init_G cfg normal_draw uniform_draw =
     (if lambda_laser cfg = 0 then Inl ZeroDivisionError
      else if A_mod_over_sigma_eta0 cfg = 0 then Inl ZeroDivisionError
      else if k_laser cfg * sigma_eta0_rel cfg = 0 then Inl ZeroDivisionError
      else if const_c cfg = 0 then Inl ZeroDivisionError
      else if N_particles cfg = 0 then Inl ZeroDivisionError
      else if const_c cfg * beam_area_transverse cfg = 0 then Inl ZeroDivisionError
      else if N_grid_s cfg = 0 then Inl ZeroDivisionError
      else if N_grid_s cfg < 0 then Inl ValueError
      else if of_int (N_grid_s cfg) * ds_grid cfg = 0 then Inl ZeroDivisionError
      else
        bindE (np_random_normal normal_draw (sigma_eta0_rel cfg) (N_particles cfg))
          (\<lambda>eta0_particles.
        bindE (np_random_uniform uniform_draw (N_particles cfg)) (\<lambda>theta0_particles.
        let eta1_particles =
              map2 (\<lambda>h t. h + A_mod cfg * sin t) eta0_particles theta0_particles;
            theta1_particles = theta0_particles;
            eta_init_ode = eta1_particles;
            s_init_ode_raw =
              map2 (\<lambda>t h. t / k_laser cfg + R56 cfg * h) theta1_particles eta1_particles;
            s_init_ode = map (\<lambda>s. np_mod s (period_length_s cfg)) s_init_ode_raw
        in
        bindE (np_zeros (2 * N_particles cfg)) (\<lambda>Y0.
        bindE (assign_stride2 0 Y0 eta_init_ode) (\<lambda>Y0.
        bindE (assign_stride2 1 Y0 s_init_ode) (\<lambda>Y0.
        if gamma_ref cfg * const_m_e cfg * (const_c cfg)\<^sup>2 = 0 then Inl ZeroDivisionError
        else if gamma_ref_sq cfg = 0 then Inl ZeroDivisionError
        else Inr Y0))))))"

section \<open>Diagnostics: projected energy spread\<close>

text \<open>\<^verbatim>\<open>np.std\<close>: the square root of the mean squared deviation from the mean (nan when empty).\<close>

definition np_std :: "real list \<Rightarrow> real option" where
  "np_std xs =
     (case np_mean xs of None \<Rightarrow> None
      | Some m \<Rightarrow> map_option sqrt (np_mean (map (\<lambda>x. \<bar>x - m\<bar>\<^sup>2) xs)))"

text \<open>
  The history loop of both scripts over the snapshots of the solver's result; \<open>sol_y\<close> lists
  the state vector at each recorded \<open>z\<close>. An entry \<open>None\<close> is nan.
\<close>

definition history_entry :: "config \<Rightarrow> real list \<Rightarrow> real option" where
  "history_entry cfg Y =
     (if N_particles cfg > 10
      then map_option (\<lambda>std_eta_projected. std_eta_projected / sigma_eta0_rel cfg)
             (np_std (stride2 0 Y))
      else None)"

definition history_sigma_eta_ode :: "config \<Rightarrow> real list list \<Rightarrow> real option list" where
  "history_sigma_eta_ode cfg sol_y = map (history_entry cfg) sol_y"

definition history_sigma_eta_ode_fft :: "config \<Rightarrow> real list list \<Rightarrow> real option list" where
  "history_sigma_eta_ode_fft cfg sol_y = map (history_entry cfg) sol_y"

section \<open>Double rounding\<close>

text \<open>
  IEEE 754 binary64 rounding to nearest, ties to even, of a real number in the normal
  range (no overflow, no subnormals): the result of a double addition \<^verbatim>\<open>a + b\<close> is
  \<open>round_double (a + b)\<close>. \<open>round_half_even\<close> rounds to the nearest integer, a tie to
  the even one; the unit in the last place of \<open>x\<close> is \<open>2 powi (e - 52)\<close> where
  \<open>2 powi e \<le> \<bar>x\<bar> < 2 powi (e + 1)\<close>.
\<close>

definition round_half_even :: "real \<Rightarrow> int" where
  "round_half_even r =
     (let f = \<lfloor>r\<rfloor>
      in if r - of_int f < 1 / 2 then f
         else if 1 / 2 < r - of_int f then f + 1
         else if even f then f else f + 1)"

definition round_double :: "real \<Rightarrow> real" where
  "round_double x =
     (if x = 0 then 0
      else let e = \<lfloor>log 2 \<bar>x\<bar>\<rfloor>; ulp = 2 powi (e - 52)
           in of_int (round_half_even (x / ulp)) * ulp)"



section \<open>Reference formulas\<close>

text \<open>
  The formulas of the harmonic field solver as the specification words them: the bunching
  factor \<open>b_n\<close> is the mean over all particles of \<open>cos(n * phase)\<close>, and the field at a
  phase is \<open>-C * S(phase)\<close> with \<open>S\<close> the sum over \<open>n = 1..N_h\<close> of
  \<open>(b_n / n) * sin(n * phase)\<close>.
\<close>

definition spec_b :: "real list \<Rightarrow> int \<Rightarrow> real" where
  "spec_b phases n = (\<Sum>t\<leftarrow>phases. cos (of_int n * t)) / real (length phases)"

definition spec_Ez :: "real \<Rightarrow> int \<Rightarrow> real list \<Rightarrow> real \<Rightarrow> real" where
  "spec_Ez C N_h phases t =
     - C * (\<Sum>n\<leftarrow>[1..N_h]. (spec_b phases n / of_int n) * sin (of_int n * t))"

text \<open>
  The standard deviation of a snapshot as the diagnostics contract words it: the root of
  the mean squared deviation from the mean.
\<close>

definition spec_std :: "real list \<Rightarrow> real" where
  "spec_std xs =
     sqrt ((\<Sum>x\<leftarrow>xs. (x - sum_list xs / real (length xs))\<^sup>2) / real (length xs))"

section \<open>Example configurations\<close>

text \<open>
  The values assigned by the scripts (CODATA values for the constants, the harmonic
  script's choice where the two differ), and small instances of them used to evaluate the
  functions above on concrete inputs.
\<close>

definition script_config :: config where
  "script_config =
     \<lparr> const_e = 1602176634 / 10 ^ 28,
       const_m_e = 91093837015 / 10 ^ 41,
       const_c = 299792458,
       const_epsilon_0 = 88541878128 / 10 ^ 22,
       drift_length_ode = 5 / 2,
       N_particles = 10000,
       lambda_laser = 266 / 10 ^ 9,
       gamma_ref = 1300 / (511 / 1000),
       sigma_eta0_rel = 1 / 10 ^ 4,
       A_mod_over_sigma_eta0 = 10,
       I_peak_avg = 1000,
       beam_radius = 65 / 10 ^ 6 * (3 / 2),
       N_harmonics_Ez = 30,
       I_avg_beam = 1000,
       beam_radius_transverse = 65 / 10 ^ 6 * (3 / 2),
       N_grid_s = 512 \<rparr>"

text \<open>Four particles and one harmonic.\<close>

definition cfg_H4 :: config where
  "cfg_H4 = script_config\<lparr>N_particles := 4, N_harmonics_Ez := 1\<rparr>"

definition quarter_phases :: "real list" where
  "quarter_phases = [0, pi / 2, pi, 3 * pi / 2]"

text \<open>Two particles and no harmonic at all.\<close>

definition cfg_H0 :: config where
  "cfg_H0 = script_config\<lparr>N_particles := 2, N_harmonics_Ez := 0\<rparr>"

text \<open>Random draws that are all zero.\<close>

definition zero_draw :: "nat \<Rightarrow> real" where
  "zero_draw i = 0"

text \<open>
  A grid of four bins with three particles: two at the origin and one in the middle of
  the second bin. \<open>field_scale_G4\<close> is the field amplitude that one particle induces there.
\<close>

definition cfg_G4 :: config where
  "cfg_G4 = script_config\<lparr>N_particles := 3, N_grid_s := 4\<rparr>"

definition Y_G4 :: "real list" where
  "Y_G4 = [0, 0, 0, 0, 0, 9975 / 10 ^ 11]"

definition field_scale_G4 :: real where
  "field_scale_G4 =
     Q_macro cfg_G4 * period_length_s cfg_G4 /
       (ds_grid cfg_G4 * beam_area_transverse cfg_G4 * (4 * pi * const_epsilon_0 cfg_G4))"

text \<open>Counts that are zero or negative.\<close>

definition cfg_no_grid :: config where
  "cfg_no_grid = script_config\<lparr>N_grid_s := 0\<rparr>"

definition cfg_negative_particles :: config where
  "cfg_negative_particles = script_config\<lparr>N_particles := - 1\<rparr>"

definition cfg_negative_harmonics :: config where
  "cfg_negative_harmonics = script_config\<lparr>N_particles := 2, N_harmonics_Ez := - 1\<rparr>"

text \<open>Eleven particles, the smallest ensemble for which the diagnostics compute a spread.\<close>

definition cfg_11 :: config where
  "cfg_11 = script_config\<lparr>N_particles := 11\<rparr>"

text \<open>
  The period as the scripts hold it: \<open>period_double\<close> is the double nearest to
  \<^verbatim>\<open>266e-9\<close>, \<^verbatim>\<open>0x1.1d9d85f385af7p-22\<close>. With four bins and two particles, \<open>Y_edge\<close> has
  the second particle at half the period (the double \<^verbatim>\<open>1.33e-07\<close>), the left edge of the
  third bin; \<open>Y_edge_shifted\<close> moves it by one period, the sum taken in doubles;
  \<open>Y_exact\<close> has it at one period, where that sum is exact.
\<close>

definition period_double :: real where
  "period_double = 5024597937773303 / 2 ^ 74"

definition cfg_G4_double :: config where
  "cfg_G4_double = script_config\<lparr>N_particles := 2, lambda_laser := period_double, N_grid_s := 4\<rparr>"

definition Y_edge :: "real list" where
  "Y_edge = [0, 0, 0, period_double / 2]"

definition Y_edge_shifted :: "real list" where
  "Y_edge_shifted = [0, 0, 0, round_double (period_double / 2 + period_double)]"

definition Y_exact :: "real list" where
  "Y_exact = [0, 0, 0, period_double]"

definition field_scale_double :: real where
  "field_scale_double =
     Q_macro cfg_G4_double * period_length_s cfg_G4_double /
       (ds_grid cfg_G4_double * beam_area_transverse cfg_G4_double *
        (4 * pi * const_epsilon_0 cfg_G4_double))"







section \<open>Auxiliary facts\<close>

lemma bindE_Inr [simp]: "bindE (Inr v) f = f v"
  by (simp add: bindE_def)

lemma bindE_Inl [simp]: "bindE (Inl err) f = Inl err"
  by (simp add: bindE_def)

lemma length_stride2_even:
  "length a = 2 * n \<Longrightarrow> length (stride2 0 a) = n \<and> length (stride2 1 a) = n"
  by (simp add: stride2_def)

lemma nth_stride2:
  "i < (length a + 1 - start) div 2 \<Longrightarrow> stride2 start a ! i = a ! (2 * i + start)"
  by (simp add: stride2_def)

lemma broadcast_to_same: "length b = n \<Longrightarrow> broadcast_to n b = Inr b"
  by (simp add: broadcast_to_def)

lemma iadd_same: "length b = length a \<Longrightarrow> iadd a b = Inr (map2 (+) a b)"
  by (simp add: iadd_def broadcast_to_same)

subsection \<open>The two loops of the harmonic solver\<close>

lemma length_bn_loop: "length (bn_loop th ns bn) = length bn"
  by (induction ns arbitrary: bn) auto

lemma nth_bn_loop:
  "\<forall>n\<in>set ns. 1 \<le> n \<Longrightarrow> i < length bn \<Longrightarrow>
   bn_loop th ns bn ! i =
     (if int i + 1 \<in> set ns then np_mean (map (\<lambda>t. cos (of_int (int i + 1) * t)) th)
      else bn ! i)"
proof (induction ns arbitrary: bn)
  case Nil
  then show ?case by simp
next
  case (Cons n ns)
  have n1: "1 \<le> n" using Cons.prems by simp
  have eq: "nat (n - 1) = i \<longleftrightarrow> n = int i + 1" using n1 by auto
  show ?case
    using Cons.prems Cons.IH[of "bn[nat (n - 1) := np_mean (map (\<lambda>t. cos (of_int n * t)) th)]"]
    by (auto simp: eq nth_list_update)
qed

lemma bn_loop_upto:
  assumes "0 \<le> N"
  shows "bn_loop th [1..N] (replicate (nat N) (Some 0)) =
         map (\<lambda>n. np_mean (map (\<lambda>t. cos (of_int n * t)) th)) [1..N]"
proof (rule nth_equalityI)
  show "length (bn_loop th [1..N] (replicate (nat N) (Some 0))) =
        length (map (\<lambda>n. np_mean (map (\<lambda>t. cos (of_int n * t)) th)) [1..N])"
    using assms by (simp add: length_bn_loop)
next
  fix i assume "i < length (bn_loop th [1..N] (replicate (nat N) (Some 0)))"
  then have i: "i < nat N" by (simp add: length_bn_loop)
  have "bn_loop th [1..N] (replicate (nat N) (Some 0)) ! i =
        np_mean (map (\<lambda>t. cos (of_int (int i + 1) * t)) th)"
    using i by (subst nth_bn_loop) auto
  moreover have "[1..N] ! i = int i + 1" using i by (simp add: add.commute)
  ultimately show "bn_loop th [1..N] (replicate (nat N) (Some 0)) ! i =
        map (\<lambda>n. np_mean (map (\<lambda>t. cos (of_int n * t)) th)) [1..N] ! i"
    using i by (simp add: add.commute)
qed

lemma sum_loop_ok:
  assumes "length acc = length th"
  shows "sum_loop th bn ns acc =
     Inr (map (\<lambda>i. acc ! i +
            (\<Sum>n\<leftarrow>ns. (if bn ! nat (n - 1) \<noteq> Some 0 \<and> n \<noteq> 0
                      then harmonic_term (bn ! nat (n - 1)) n th ! i else 0)))
          [0..<length th])"
  using assms
proof (induction ns arbitrary: acc)
  case Nil
  then show ?case using map_nth[of acc] by simp
next
  case (Cons n ns)
  have len: "length (harmonic_term b n th) = length th" for b
    by (cases b) simp_all
  show ?case
  proof (cases "bn ! nat (n - 1) \<noteq> Some 0 \<and> n \<noteq> 0")
    case True
    have "iadd acc (harmonic_term (bn ! nat (n - 1)) n th) =
          Inr (map2 (+) acc (harmonic_term (bn ! nat (n - 1)) n th))"
      using Cons.prems len by (simp add: iadd_same)
    moreover have "length (map2 (+) acc (harmonic_term (bn ! nat (n - 1)) n th)) = length th"
      using Cons.prems len by simp
    ultimately show ?thesis
      using True Cons.IH[of "map2 (+) acc (harmonic_term (bn ! nat (n - 1)) n th)"]
        Cons.prems len
      by (auto simp: add.assoc)
  next
    case False
    then show ?thesis using Cons.IH[of acc] Cons.prems by auto
  qed
qed

lemma np_mean_cos: "th \<noteq> [] \<Longrightarrow> np_mean (map (\<lambda>t. cos (of_int n * t)) th) = Some (spec_b th n)"
  by (simp add: np_mean_def spec_b_def)

lemma bn_array_of_ok:
  assumes "th \<noteq> []" "0 \<le> N_harmonics_Ez cfg"
  shows "bn_array_of cfg th = Inr (map (\<lambda>n. Some (spec_b th n)) [1..N_harmonics_Ez cfg])"
  using assms by (simp add: bn_array_of_def bn_loop_upto np_mean_cos)

lemma harmonic_sum_eq:
  assumes "i < length th" "N = N_harmonics_Ez cfg"
  shows "(\<Sum>n\<leftarrow>[1..N]. (if map (\<lambda>n. Some (spec_b th n)) [1..N] ! nat (n - 1) \<noteq> Some 0 \<and> n \<noteq> 0
                      then harmonic_term (map (\<lambda>n. Some (spec_b th n)) [1..N] ! nat (n - 1)) n th ! i else 0))
       = (\<Sum>n\<leftarrow>[1..N]. (spec_b th n / of_int n) * sin (of_int n * th ! i))"
proof (rule arg_cong[where f = sum_list], rule map_cong[OF refl])
  fix n assume "n \<in> set [1..N]"
  then have n: "1 \<le> n" "n \<le> N" by auto
  then have "[1..N] ! nat (n - 1) = n" by simp
  then have "map (\<lambda>n. Some (spec_b th n)) [1..N] ! nat (n - 1) = Some (spec_b th n)"
    using n by simp
  then show "(if map (\<lambda>n. Some (spec_b th n)) [1..N] ! nat (n - 1) \<noteq> Some 0 \<and> n \<noteq> 0
                      then harmonic_term (map (\<lambda>n. Some (spec_b th n)) [1..N] ! nat (n - 1)) n th ! i else 0)
       = (spec_b th n / of_int n) * sin (of_int n * th ! i)"
    using assms(1) by simp
qed

lemma Ez_particles_of_ok:
  assumes "th \<noteq> []" "length th = nat (N_particles cfg)" "0 \<le> N_harmonics_Ez cfg"
  shows "Ez_particles_of cfg th =
         Inr (map (spec_Ez (Ez_const_factor cfg) (N_harmonics_Ez cfg) th) th)"
proof -
  have Np: "0 \<le> N_particles cfg" using assms(1,2) by (cases "0 \<le> N_particles cfg") auto
  have z: "np_zeros (N_particles cfg) = Inr (replicate (length th) 0)"
    using Np assms(2) by (simp add: np_zeros_def)
  have "Ez_particles_of cfg th =
     Inr (map (\<lambda>s. - Ez_const_factor cfg * s)
       (map (\<lambda>i. replicate (length th) 0 ! i +
            (\<Sum>n\<leftarrow>[1..N_harmonics_Ez cfg]. (if map (\<lambda>n. Some (spec_b th n)) [1..N_harmonics_Ez cfg] ! nat (n - 1) \<noteq> Some 0 \<and> n \<noteq> 0
                      then harmonic_term (map (\<lambda>n. Some (spec_b th n)) [1..N_harmonics_Ez cfg] ! nat (n - 1)) n th ! i else 0)))
          [0..<length th]))"
    unfolding Ez_particles_of_def
    by (simp add: bn_array_of_ok[OF assms(1,3)] z sum_loop_ok)
  also have "\<dots> = Inr (map (spec_Ez (Ez_const_factor cfg) (N_harmonics_Ez cfg) th) th)"
  proof -
    have "map (\<lambda>s. - Ez_const_factor cfg * s)
       (map (\<lambda>i. replicate (length th) 0 ! i +
            (\<Sum>n\<leftarrow>[1..N_harmonics_Ez cfg]. (if map (\<lambda>n. Some (spec_b th n)) [1..N_harmonics_Ez cfg] ! nat (n - 1) \<noteq> Some 0 \<and> n \<noteq> 0
                      then harmonic_term (map (\<lambda>n. Some (spec_b th n)) [1..N_harmonics_Ez cfg] ! nat (n - 1)) n th ! i else 0)))
          [0..<length th]) = map (spec_Ez (Ez_const_factor cfg) (N_harmonics_Ez cfg) th) th"
      by (rule nth_equalityI) (simp_all add: harmonic_sum_eq spec_Ez_def)
    then show ?thesis by simp
  qed
  finally show ?thesis .
qed

lemma Ez_particles_of_shape:
  assumes "length th = nat (N_particles cfg)" "0 \<le> N_particles cfg" "0 \<le> N_harmonics_Ez cfg"
  shows "\<exists>F. Ez_particles_of cfg th = Inr F \<and> length F = length th"
proof -
  have z: "np_zeros (N_particles cfg) = Inr (replicate (length th) 0)"
    using assms by (simp add: np_zeros_def)
  show ?thesis
    unfolding Ez_particles_of_def using assms(3)
    by (simp add: bn_array_of_def z sum_loop_ok)
qed

lemma assign_stride2_both:
  assumes "length Y = 2 * n" "length v = n" "length w = n"
  shows "bindE (assign_stride2 0 (map (\<lambda>y. 0) Y) v) (\<lambda>d. assign_stride2 1 d w) =
         Inr (map (\<lambda>j. if even j then v ! (j div 2) else w ! (j div 2)) [0..<length Y])"
proof -
  have 1: "assign_stride2 0 (map (\<lambda>y. 0) Y) v =
        Inr (map (\<lambda>j. if j mod 2 = 0 then v ! (j div 2) else map (\<lambda>y. 0) Y ! j) [0..<length Y])"
    using assms by (simp add: assign_stride2_def broadcast_to_same stride2_def)
  show ?thesis
    unfolding 1 using assms
    by (auto simp: assign_stride2_def broadcast_to_same stride2_def even_iff_mod_2_eq_zero)
qed

lemma collective_ode_ok:
  assumes "length Y = 2 * n" "n = nat (N_particles cfg)" "0 \<le> N_particles cfg"
    "0 \<le> N_harmonics_Ez cfg"
  shows "\<exists>F dY. Ez_particles_of cfg (stride2 1 Y) = Inr F \<and> length F = n \<and>
           collective_ode cfg z Y = Inr dY \<and> length dY = 2 * n \<and>
           (\<forall>i<n. dY ! (2 * i) = eta_change_factor cfg * F ! i \<and>
                  dY ! (2 * i + 1) = theta_change_factor cfg * Y ! (2 * i))"
proof -
  have lens: "length (stride2 0 Y) = n" "length (stride2 1 Y) = n"
    using length_stride2_even[OF assms(1)] by simp_all
  obtain F where F: "Ez_particles_of cfg (stride2 1 Y) = Inr F" "length F = n"
    using Ez_particles_of_shape[of "stride2 1 Y" cfg] lens assms by auto
  let ?v = "map (\<lambda>E. eta_change_factor cfg * E) F"
  let ?w = "map (\<lambda>h. theta_change_factor cfg * h) (stride2 0 Y)"
  let ?dY = "map (\<lambda>j. if even j then ?v ! (j div 2) else ?w ! (j div 2)) [0..<length Y]"
  have "collective_ode cfg z Y = Inr ?dY"
    unfolding collective_ode_def Let_def F bindE_Inr
    by (rule assign_stride2_both[OF assms(1)]) (simp_all add: F lens)
  moreover have "\<forall>i<n. ?dY ! (2 * i) = eta_change_factor cfg * F ! i \<and>
                  ?dY ! (2 * i + 1) = theta_change_factor cfg * Y ! (2 * i)"
    using assms(1) F(2) lens by (auto simp: nth_stride2)
  ultimately show ?thesis using F assms(1) by auto
qed

lemma np_mod_plus_period: "L \<noteq> 0 \<Longrightarrow> np_mod (s + L) L = np_mod s L"
proof -
  assume L: "L \<noteq> 0"
  have "(s + L) / L = s / L + 1" using L by (simp add: field_simps)
  then have "\<lfloor>(s + L) / L\<rfloor> = \<lfloor>s / L\<rfloor> + 1" by simp
  then show ?thesis by (simp add: np_mod_def algebra_simps)
qed

lemma np_histogram_ok:
  assumes "1 \<le> bins" "lo \<le> hi"
  shows "\<exists>counts. np_histogram a bins lo hi = Inr counts \<and> length counts = nat bins"
  using assms by (simp add: np_histogram_def Let_def)

lemma length_rho_s_of [simp]: "length (rho_s_of cfg counts) = length counts"
  by (simp add: rho_s_of_def)

lemma length_rho_ac_s_of [simp]: "length (rho_ac_s_of rho_s) = length rho_s"
  by (simp add: rho_ac_s_of_def np_mean_def)

lemma length_fft [simp]: "length (fft x) = length x"
  by (simp add: fft_def)

lemma length_ifft [simp]: "length (ifft x) = length x"
  by (simp add: ifft_def)

lemma length_Ez_fft_of [simp]: "length (Ez_fft_of cfg X) = length X"
  by (simp add: Ez_fft_of_def)

lemma length_Ez_complex_grid_of [simp]: "length (Ez_complex_grid_of cfg rho_s) = length rho_s"
  by (simp add: Ez_complex_grid_of_def)

lemma length_Ez_s_grid_of [simp]: "length (Ez_s_grid_of cfg rho_s) = length rho_s"
  by (simp add: Ez_s_grid_of_def)

lemma particle_grid_index_range:
  "1 \<le> N_grid_s cfg \<Longrightarrow>
   0 \<le> particle_grid_index cfg s \<and> particle_grid_index cfg s \<le> N_grid_s cfg - 1"
  by (simp add: particle_grid_index_def np_clip_def)

lemma np_take_in_range:
  "0 \<le> i \<Longrightarrow> i < int (length a) \<Longrightarrow> np_take a i = Inr (a ! nat i)"
  by (simp add: np_take_def)

lemma np_take_all_in_range:
  "\<forall>i\<in>set idx. 0 \<le> i \<and> i < int (length a) \<Longrightarrow>
   np_take_all a idx = Inr (map (\<lambda>i. a ! nat i) idx)"
  by (induction idx) (simp_all add: np_take_in_range)

lemma Ez_s_grid_at_ok:
  assumes "1 \<le> N_grid_s cfg" "0 \<le> period_length_s cfg"
  shows "\<exists>G. Ez_s_grid_at cfg Y = Inr G \<and> length G = nat (N_grid_s cfg)"
proof -
  obtain counts where c:
    "np_histogram (current_s_mod_of cfg Y) (N_grid_s cfg) 0 (period_length_s cfg) = Inr counts"
    "length counts = nat (N_grid_s cfg)"
    using np_histogram_ok[OF assms] by blast
  show ?thesis by (simp add: Ez_s_grid_at_def c)
qed

lemma Ez_particles_interp_of_ok:
  assumes "1 \<le> N_grid_s cfg" "Ez_s_grid_at cfg Y = Inr G" "length G = nat (N_grid_s cfg)"
  shows "Ez_particles_interp_of cfg Y =
         Inr (map (\<lambda>s. - G ! nat (particle_grid_index cfg s)) (current_s_mod_of cfg Y))"
proof -
  have "\<forall>i\<in>set (map (particle_grid_index cfg) (current_s_mod_of cfg Y)).
          0 \<le> i \<and> i < int (length G)"
    using particle_grid_index_range[OF assms(1)] assms(1,3) by fastforce
  then show ?thesis
    by (simp add: Ez_particles_interp_of_def assms(2) np_take_all_in_range comp_def)
qed

lemma length_current_s_mod_of: "length Y = 2 * n \<Longrightarrow> length (current_s_mod_of cfg Y) = n"
  by (simp add: current_s_mod_of_def stride2_def)

lemma collective_ode_fft_ok:
  assumes "length Y = 2 * n" "1 \<le> N_grid_s cfg" "0 \<le> period_length_s cfg"
  shows "\<exists>F dY. Ez_particles_interp_of cfg Y = Inr F \<and> length F = n \<and>
           collective_ode_fft cfg z Y = Inr dY \<and> length dY = 2 * n \<and>
           (\<forall>i<n. dY ! (2 * i) = (- const_e cfg) * F ! i * eta_change_factor_ode cfg \<and>
                  dY ! (2 * i + 1) = s_change_factor_ode cfg * Y ! (2 * i))"
proof -
  obtain G where G: "Ez_s_grid_at cfg Y = Inr G" "length G = nat (N_grid_s cfg)"
    using Ez_s_grid_at_ok[OF assms(2,3)] by blast
  define F where "F = map (\<lambda>s. - G ! nat (particle_grid_index cfg s)) (current_s_mod_of cfg Y)"
  have F: "Ez_particles_interp_of cfg Y = Inr F"
    unfolding F_def by (rule Ez_particles_interp_of_ok[OF assms(2) G])
  have lenF: "length F = n"
    by (simp add: F_def length_current_s_mod_of[OF assms(1)])
  have lens: "length (stride2 0 Y) = n"
    using length_stride2_even[OF assms(1)] by simp
  let ?v = "map (\<lambda>E. (- const_e cfg) * E * eta_change_factor_ode cfg) F"
  let ?w = "map (\<lambda>h. s_change_factor_ode cfg * h) (stride2 0 Y)"
  let ?dY = "map (\<lambda>j. if even j then ?v ! (j div 2) else ?w ! (j div 2)) [0..<length Y]"
  have "collective_ode_fft cfg z Y = Inr ?dY"
    unfolding collective_ode_fft_def Let_def F bindE_Inr
    by (rule assign_stride2_both[OF assms(1)]) (simp_all add: lenF lens)
  moreover have "\<forall>i<n. ?dY ! (2 * i) = (- const_e cfg) * F ! i * eta_change_factor_ode cfg \<and>
                  ?dY ! (2 * i + 1) = s_change_factor_ode cfg * Y ! (2 * i)"
    using assms(1) lenF lens by (auto simp: nth_stride2)
  ultimately show ?thesis using F lenF assms(1) by auto
qed


lemma length_k_s_grid_fft: "length (k_s_grid_fft cfg) = nat (N_grid_s cfg)"
  by (simp add: k_s_grid_fft_def fftfreq_def)





lemma stride2_1_update:
  "2 * i + 1 < length Y \<Longrightarrow> stride2 1 (Y[2 * i + 1 := v]) = (stride2 1 Y)[i := v]"
  by (rule nth_equalityI) (auto simp: stride2_def nth_list_update)

lemma stride2_0_update:
  "stride2 0 (Y[2 * i + 1 := v]) = stride2 0 Y"
proof -
  have "2 * i + 1 \<noteq> 2 * j" for j :: nat by presburger
  then have "Y[2 * i + 1 := v] ! (2 * j) = Y ! (2 * j)" for j
    by (rule nth_list_update_neq)
  then show ?thesis
    by (simp add: stride2_def del: One_nat_def)
qed

lemma current_s_mod_of_period:
  assumes "period_length_s cfg \<noteq> 0" "2 * i + 1 < length Y"
  shows "current_s_mod_of cfg (Y[2 * i + 1 := Y ! (2 * i + 1) + period_length_s cfg]) =
         current_s_mod_of cfg Y"
proof -
  have i: "i < length (stride2 1 Y)" using assms(2) by (simp add: stride2_def)
  have "map (\<lambda>s. np_mod s (period_length_s cfg)) ((stride2 1 Y)[i := Y ! (2 * i + 1) + period_length_s cfg])
      = map (\<lambda>s. np_mod s (period_length_s cfg)) (stride2 1 Y)"
    using i assms
    by (intro nth_equalityI) (auto simp: nth_list_update np_mod_plus_period nth_stride2 stride2_def)
  then show ?thesis
    unfolding current_s_mod_of_def stride2_1_update[OF assms(2)] .
qed

lemma upt_4: "[0..<4] = [0, 1, 2, 3]"
  by (simp add: upt_rec)

lemma upto_0_3: "[0..3] = [0, 1, 2, 3::int]"
  by (simp add: upto.simps)

lemma cis_quarter_neg: "cis (- (2 * pi * real j * real k / 4)) = (- \<i>) ^ (j * k)"
proof -
  have "cis (- (2 * pi * real j * real k / 4)) = cis (real (j * k) * (- (pi / 2)))"
    by (simp add: field_simps)
  also have "\<dots> = cis (- (pi / 2)) ^ (j * k)"
    by (simp only: DeMoivre)
  finally show ?thesis by simp
qed

lemma cis_quarter_pos: "cis (2 * pi * real j * real k / 4) = \<i> ^ (j * k)"
proof -
  have "cis (2 * pi * real j * real k / 4) = cis (real (j * k) * (pi / 2))"
    by (simp add: field_simps)
  also have "\<dots> = cis (pi / 2) ^ (j * k)"
    by (simp only: DeMoivre)
  finally show ?thesis by simp
qed

lemma fft_4:
  "fft [x0, x1, x2, x3] =
     [x0 + x1 + x2 + x3, x0 - \<i> * x1 - x2 + \<i> * x3, x0 - x1 + x2 - x3, x0 + \<i> * x1 - x2 - \<i> * x3]"
proof -
  have c: "cis (- (2 * pi * real j * real k / real (length [x0, x1, x2, x3]))) = (- \<i>) ^ (j * k)" for j k
    using cis_quarter_neg[of j k] by simp
  show ?thesis
    unfolding fft_def c
    by (simp add: upt_4 power_numeral_reduce algebra_simps)
qed

lemma ifft_4:
  "ifft [X0, X1, X2, X3] =
     [(X0 + X1 + X2 + X3) / 4, (X0 + \<i> * X1 - X2 - \<i> * X3) / 4, (X0 - X1 + X2 - X3) / 4,
      (X0 - \<i> * X1 - X2 + \<i> * X3) / 4]"
proof -
  have c: "cis (2 * pi * real j * real k / real (length [X0, X1, X2, X3])) = \<i> ^ (j * k)" for j k
    using cis_quarter_pos[of j k] by simp
  show ?thesis
    unfolding ifft_def c
    by (simp add: upt_4 power_numeral_reduce algebra_simps)
qed

lemma k_s_grid_fft_4:
  assumes "N_grid_s cfg = 4" "period_length_s cfg \<noteq> 0"
  shows "k_s_grid_fft cfg =
     [0, 2 * pi / period_length_s cfg, - (4 * pi / period_length_s cfg),
      - (2 * pi / period_length_s cfg)]"
  using assms by (simp add: k_s_grid_fft_def fftfreq_def ds_grid_def upto_0_3)

lemma rho_ac_s_of_4:
  "rho_ac_s_of [a, b, c, d] =
     [a - (a + b + c + d) / 4, b - (a + b + c + d) / 4, c - (a + b + c + d) / 4,
      d - (a + b + c + d) / 4]"
  by (simp add: rho_ac_s_of_def np_mean_def)

lemma Ez_fft_of_4:
  assumes "N_grid_s cfg = 4" "period_length_s cfg \<noteq> 0"
  shows "Ez_fft_of cfg [X0, X1, X2, X3] =
     [0,
      X1 / (\<i> * of_real (2 * pi / period_length_s cfg) * of_real (const_epsilon_0 cfg)),
      X2 / (\<i> * of_real (- (4 * pi / period_length_s cfg)) * of_real (const_epsilon_0 cfg)),
      X3 / (\<i> * of_real (- (2 * pi / period_length_s cfg)) * of_real (const_epsilon_0 cfg))]"
  using assms(2) unfolding Ez_fft_of_def k_s_grid_fft_4[OF assms]
  by (simp add: upt_4)

lemma divide_by_ik:
  "k \<noteq> 0 \<Longrightarrow> e \<noteq> 0 \<Longrightarrow>
   X / (\<i> * of_real k * of_real e) = - (\<i> * X * of_real (1 / (k * e)))"
  by (simp add: field_simps)

lemma four_bin_field:
  assumes "N_grid_s cfg = 4" "period_length_s cfg \<noteq> 0" "const_epsilon_0 cfg \<noteq> 0"
  shows "Ez_complex_grid_of cfg [a, b, c, d] =
     [Complex (- (b - d) * period_length_s cfg / (4 * pi * const_epsilon_0 cfg))
              ((a - b + c - d) * period_length_s cfg / (16 * pi * const_epsilon_0 cfg)),
      Complex ((a - c) * period_length_s cfg / (4 * pi * const_epsilon_0 cfg))
              (- (a - b + c - d) * period_length_s cfg / (16 * pi * const_epsilon_0 cfg)),
      Complex ((b - d) * period_length_s cfg / (4 * pi * const_epsilon_0 cfg))
              ((a - b + c - d) * period_length_s cfg / (16 * pi * const_epsilon_0 cfg)),
      Complex (- (a - c) * period_length_s cfg / (4 * pi * const_epsilon_0 cfg))
              (- (a - b + c - d) * period_length_s cfg / (16 * pi * const_epsilon_0 cfg))]"
proof -
  let ?L = "period_length_s cfg" and ?e = "const_epsilon_0 cfg"
  have k1: "2 * pi / ?L \<noteq> 0" and k2: "- (4 * pi / ?L) \<noteq> 0" and k3: "- (2 * pi / ?L) \<noteq> 0"
    using assms(2) by simp_all
  have g1: "1 / (2 * pi / ?L * ?e) = ?L / (2 * pi * ?e)"
    and g2: "1 / (- (4 * pi / ?L) * ?e) = - (?L / (4 * pi * ?e))"
    and g3: "1 / (- (2 * pi / ?L) * ?e) = - (?L / (2 * pi * ?e))"
    using assms(2,3) by (simp_all add: field_simps)
  show ?thesis
    unfolding Ez_complex_grid_of_def rho_ac_s_of_4 list.map fft_4 Ez_fft_of_4[OF assms(1,2)]
      ifft_4 divide_by_ik[OF k1 assms(3)] divide_by_ik[OF k2 assms(3)]
      divide_by_ik[OF k3 assms(3)] g1 g2 g3
    using assms(2,3)
    by (simp add: complex_eq_iff field_simps)
qed

subsection \<open>The quarter-phase ensemble\<close>



subsection \<open>The four-bin example\<close>

lemma upt_3: "[0..<3] = [0, 1, 2]"
  by (simp add: upt_rec)

lemma cfg_G4_basic:
  "N_grid_s cfg_G4 = 4" "period_length_s cfg_G4 = 266 / 10 ^ 9" "ds_grid cfg_G4 = 665 / 10 ^ 10"
  "const_epsilon_0 cfg_G4 = 88541878128 / 10 ^ 22" "N_particles cfg_G4 = 3"
  "N_harmonics_Ez cfg_G4 = 30"
  by (simp_all add: cfg_G4_def script_config_def period_length_s_def ds_grid_def)

lemma cfg_G4_positive: "0 < Q_macro cfg_G4" "0 < beam_area_transverse cfg_G4"
  by (simp_all add: Q_macro_def Q_total_in_one_period_def T_laser_period_def
      beam_area_transverse_def cfg_G4_def script_config_def)

lemma field_scale_G4_pos: "0 < field_scale_G4"
  using cfg_G4_positive by (simp add: field_scale_G4_def cfg_G4_basic)

lemma current_s_mod_of_Y_G4: "current_s_mod_of cfg_G4 Y_G4 = [0, 0, 9975 / 10 ^ 11]"
  by (simp add: current_s_mod_of_def Y_G4_def stride2_def cfg_G4_basic np_mod_def upt_3)

lemma histogram_Y_G4:
  "np_histogram [0, 0, 9975 / 10 ^ 11] 4 0 (266 / 10 ^ 9) = Inr [2, 1, 0, 0]"
  by (simp add: np_histogram_def Let_def upto_0_3)

lemma rho_s_of_G4:
  "rho_s_of cfg_G4 [2, 1, 0, 0] =
      [- (2 * Q_macro cfg_G4) / (ds_grid cfg_G4 * beam_area_transverse cfg_G4),
       - Q_macro cfg_G4 / (ds_grid cfg_G4 * beam_area_transverse cfg_G4), 0, 0]"
  by (simp add: rho_s_of_def)

lemma Ez_complex_grid_G4:
  "Ez_complex_grid_of cfg_G4 (rho_s_of cfg_G4 [2, 1, 0, 0]) =
     [Complex field_scale_G4 (- (field_scale_G4 / 4)),
      Complex (- (2 * field_scale_G4)) (field_scale_G4 / 4),
      Complex (- field_scale_G4) (- (field_scale_G4 / 4)),
      Complex (2 * field_scale_G4) (field_scale_G4 / 4)]"
proof -
  have L: "period_length_s cfg_G4 \<noteq> 0" and e: "const_epsilon_0 cfg_G4 \<noteq> 0"
    by (simp_all add: cfg_G4_basic)
  show ?thesis
    unfolding rho_s_of_G4 four_bin_field[OF cfg_G4_basic(1) L e]
    by (simp add: field_scale_G4_def field_simps)
qed

lemma Ez_s_grid_at_Y_G4:
  "Ez_s_grid_at cfg_G4 Y_G4 =
     Inr [field_scale_G4, - (2 * field_scale_G4), - field_scale_G4, 2 * field_scale_G4]"
  unfolding Ez_s_grid_at_def current_s_mod_of_Y_G4 cfg_G4_basic histogram_Y_G4 bindE_Inr
    Ez_s_grid_of_def Ez_complex_grid_G4
  by simp

lemma indices_Y_G4:
  "map (particle_grid_index cfg_G4) (current_s_mod_of cfg_G4 Y_G4) = [0, 0, 1]"
  unfolding current_s_mod_of_Y_G4
  by (simp add: particle_grid_index_def cfg_G4_basic np_clip_def)

lemma interp_Y_G4:
  "Ez_particles_interp_of cfg_G4 Y_G4 =
     Inr [- field_scale_G4, - field_scale_G4, 2 * field_scale_G4]"
  unfolding Ez_particles_interp_of_def Ez_s_grid_at_Y_G4 indices_Y_G4
  by (simp add: np_take_def)

lemma collective_ode_fft_Y_G4:
  "collective_ode_fft cfg_G4 z Y_G4 =
     Inr [(- const_e cfg_G4) * (- field_scale_G4) * eta_change_factor_ode cfg_G4, 0,
          (- const_e cfg_G4) * (- field_scale_G4) * eta_change_factor_ode cfg_G4, 0,
          (- const_e cfg_G4) * (2 * field_scale_G4) * eta_change_factor_ode cfg_G4, 0]"
  unfolding collective_ode_fft_def interp_Y_G4
  by (simp add: Y_G4_def assign_stride2_def broadcast_to_def stride2_def upt_rec)

lemma field_scale_G4_large: "100000 < field_scale_G4"
proof -
  have pp: "pi * pi < 4 * 4"
    by (intro mult_strict_mono) (simp_all add: pi_less_4 less_imp_le)
  have "field_scale_G4 = (1000 * (266 / 10 ^ 9 / 299792458) / 3) * (266 / 10 ^ 9) /
      (665 / 10 ^ 10 * (pi * (65 / 10 ^ 6 * (3 / 2))\<^sup>2) * (4 * pi * (88541878128 / 10 ^ 22)))"
    by (simp add: field_scale_G4_def Q_macro_def Q_total_in_one_period_def T_laser_period_def
      beam_area_transverse_def period_length_s_def ds_grid_def cfg_G4_def script_config_def)
  also have "\<dots> = (1000 * (266 / 10 ^ 9 / 299792458) / 3) * (266 / 10 ^ 9) /
      (665 / 10 ^ 10 * ((65 / 10 ^ 6 * (3 / 2))\<^sup>2) * (4 * (88541878128 / 10 ^ 22))) / (pi * pi)"
    by (simp add: field_simps)
  finally have eq: "field_scale_G4 = (1000 * (266 / 10 ^ 9 / 299792458) / 3) * (266 / 10 ^ 9) /
      (665 / 10 ^ 10 * ((65 / 10 ^ 6 * (3 / 2))\<^sup>2) * (4 * (88541878128 / 10 ^ 22))) / (pi * pi)" .
  have "100000 * (pi * pi) < 100000 * (4 * 4)" using pp by simp
  also have "\<dots> < (1000 * (266 / 10 ^ 9 / 299792458) / 3) * (266 / 10 ^ 9) /
      (665 / 10 ^ 10 * ((65 / 10 ^ 6 * (3 / 2))\<^sup>2) * (4 * (88541878128 / 10 ^ 22)))"
    by (simp add: power2_eq_square)
  finally have "100000 < (1000 * (266 / 10 ^ 9 / 299792458) / 3) * (266 / 10 ^ 9) /
      (665 / 10 ^ 10 * ((65 / 10 ^ 6 * (3 / 2))\<^sup>2) * (4 * (88541878128 / 10 ^ 22))) / (pi * pi)"
    by (simp add: pos_less_divide_eq)
  then show ?thesis using eq by simp
qed

subsection \<open>Diagnostics and initialisation\<close>

lemma np_std_eq: "xs \<noteq> [] \<Longrightarrow> np_std xs = Some (spec_std xs)"
  by (simp add: np_std_def np_mean_def spec_std_def)

lemma init_H_cfg_H0: "init_H cfg_H0 zero_draw zero_draw = Inr [0, 0, 0, 0]"
  by (simp add: init_H_def cfg_H0_def script_config_def k_laser_def gamma_ref_sq_def
      np_random_normal_def np_random_uniform_def zero_draw_def np_mod_def np_zeros_def
      assign_stride2_def broadcast_to_def stride2_def upt_rec Let_def)

lemma collective_ode_cfg_H0: "collective_ode cfg_H0 z [0, 0, 0, 0] = Inr [0, 0, 0, 0]"
proof -
  have c: "N_harmonics_Ez cfg_H0 = 0" "N_particles cfg_H0 = 2" by (simp_all add: cfg_H0_def)
  have u: "[1..0] = ([]::int list)" by (simp add: upto.simps)
  have Ez: "Ez_particles_of cfg_H0 (stride2 1 [0, 0, 0, 0]) = Inr [0, 0]"
    unfolding Ez_particles_of_def bn_array_of_def c u
    by (simp add: np_zeros_def numeral_2_eq_2)
  show ?thesis
    unfolding collective_ode_def Let_def Ez
    by (simp add: assign_stride2_def broadcast_to_def stride2_def upt_rec)
qed

lemma init_G_bad_counts:
  assumes "N_grid_s cfg \<le> 0 \<or> N_particles cfg \<le> 0"
  shows "init_G cfg nd ud = Inl ZeroDivisionError \<or> init_G cfg nd ud = Inl ValueError"
proof (cases "N_grid_s cfg = 0 \<or> N_particles cfg = 0")
  case True
  then show ?thesis by (auto simp: init_G_def)
next
  case False
  show ?thesis
  proof (cases "N_grid_s cfg < 0")
    case True
    then show ?thesis by (auto simp: init_G_def)
  next
    case False
    with assms \<open>\<not> (N_grid_s cfg = 0 \<or> N_particles cfg = 0)\<close> have "N_particles cfg < 0" by auto
    then have "np_random_normal nd (sigma_eta0_rel cfg) (N_particles cfg) = Inl ValueError"
      by (simp add: np_random_normal_def)
    then show ?thesis by (auto simp: init_G_def)
  qed
qed

lemma init_H_negative_particles:
  assumes "N_particles cfg < 0"
  shows "init_H cfg nd ud = Inl ZeroDivisionError \<or> init_H cfg nd ud = Inl ValueError"
proof -
  have "np_random_normal nd (sigma_eta0_rel cfg) (N_particles cfg) = Inl ValueError"
    using assms by (simp add: np_random_normal_def)
  then show ?thesis by (auto simp: init_H_def)
qed

lemma init_H_ignores_harmonics: "init_H (cfg\<lparr>N_harmonics_Ez := N_h\<rparr>) nd ud = init_H cfg nd ud"
proof -
  have "k_laser (cfg\<lparr>N_harmonics_Ez := N_h\<rparr>) = k_laser cfg"
    "A_mod (cfg\<lparr>N_harmonics_Ez := N_h\<rparr>) = A_mod cfg"
    "R56 (cfg\<lparr>N_harmonics_Ez := N_h\<rparr>) = R56 cfg"
    "gamma_ref_sq (cfg\<lparr>N_harmonics_Ez := N_h\<rparr>) = gamma_ref_sq cfg"
    by (simp_all add: k_laser_def A_mod_def R56_def B_hghg_def gamma_ref_sq_def)
  then show ?thesis
    unfolding init_H_def by (simp cong del: if_weak_cong)
qed

lemma collective_ode_negative_harmonics:
  "N_harmonics_Ez cfg < 0 \<Longrightarrow> collective_ode cfg z Y = Inl ValueError"
  by (simp add: collective_ode_def Ez_particles_of_def bn_array_of_def)

lemma Ez_particles_of_no_harmonics:
  assumes "N_harmonics_Ez cfg = 0" "0 \<le> N_particles cfg"
  shows "Ez_particles_of cfg th = Inr (replicate (nat (N_particles cfg)) 0)"
proof -
  have u: "[1..0] = ([]::int list)" by (simp add: upto.simps)
  show ?thesis
    unfolding Ez_particles_of_def bn_array_of_def assms(1) u using assms(2)
    by (simp add: np_zeros_def)
qed


subsection \<open>Rounding\<close>

lemma round_double_eval:
  assumes "2 powi e \<le> \<bar>x\<bar>" "\<bar>x\<bar> < 2 powi (e + 1)"
  shows "round_double x = of_int (round_half_even (x / 2 powi (e - 52))) * 2 powi (e - 52)"
proof -
  have pos: "0 < \<bar>x\<bar>"
    using assms(1) by (smt (verit) zero_less_power_int)
  have a: "2 powr (of_int e) = (2::real) powi e" "2 powr (of_int e + 1) = (2::real) powi (e + 1)"
    using powr_real_of_int'[of 2 e] powr_real_of_int'[of 2 "e + 1"] by simp_all
  have "\<lfloor>log 2 \<bar>x\<bar>\<rfloor> = e"
    using assms pos by (simp add: floor_log_eq_powr_iff a)
  then show ?thesis using pos by (simp add: round_double_def Let_def)
qed

lemma round_half_even_int: "round_half_even (of_int n) = n"
  by (simp add: round_half_even_def)


subsection \<open>The period shift in doubles\<close>

lemma round_double_edge_sum:
  "round_double (period_double / 2 + period_double) = 7536896906659954 / 2 ^ 74"
proof -
  have x: "period_double / 2 + period_double = 15073793813319909 / 2 ^ 75"
    by (simp add: period_double_def)
  have "round_double (15073793813319909 / 2 ^ 75) =
      of_int (round_half_even ((15073793813319909 / 2 ^ 75) / 2 powi (- 22 - 52))) * 2 powi (- 22 - 52)"
    by (rule round_double_eval) (simp_all add: power_int_minus field_simps)
  also have "(15073793813319909 / 2 ^ 75) / 2 powi (- 22 - 52) = (15073793813319909 / 2 :: real)"
    by (simp add: power_int_minus field_simps)
  also have "round_half_even (15073793813319909 / 2) = 7536896906659954"
    by (simp add: round_half_even_def)
  finally show ?thesis unfolding x by (simp add: power_int_minus field_simps)
qed

lemma cfg_G4_double_basic:
  "N_grid_s cfg_G4_double = 4" "period_length_s cfg_G4_double = period_double"
  "ds_grid cfg_G4_double = period_double / 4" "N_particles cfg_G4_double = 2"
  "const_epsilon_0 cfg_G4_double = 88541878128 / 10 ^ 22"
  by (simp_all add: cfg_G4_double_def script_config_def period_length_s_def ds_grid_def)

lemma period_double_pos: "0 < period_double"
  by (simp add: period_double_def)

lemma current_s_mod_edge:
  "current_s_mod_of cfg_G4_double Y_edge = [0, period_double / 2]"
  using period_double_pos
  by (simp add: current_s_mod_of_def Y_edge_def stride2_def cfg_G4_double_basic np_mod_def
      upt_rec)

lemma current_s_mod_edge_shifted:
  "current_s_mod_of cfg_G4_double Y_edge_shifted = [0, 2512298968886651 / 2 ^ 74]"
  unfolding Y_edge_shifted_def round_double_edge_sum
  by (simp add: current_s_mod_of_def stride2_def cfg_G4_double_basic np_mod_def
      upt_rec period_double_def)

lemma indices_edge:
  "map (particle_grid_index cfg_G4_double) [0, period_double / 2] = [0, 2]"
  using period_double_pos
  by (simp add: particle_grid_index_def cfg_G4_double_basic np_clip_def)

lemma indices_edge_shifted:
  "map (particle_grid_index cfg_G4_double) [0, 2512298968886651 / 2 ^ 74] = [0, 1]"
  by (simp add: particle_grid_index_def cfg_G4_double_basic np_clip_def period_double_def)

lemma histogram_edge:
  "np_histogram [0, period_double / 2] 4 0 period_double = Inr [1, 0, 1, 0]"
  using period_double_pos
  by (simp add: np_histogram_def Let_def upto_0_3)

lemma histogram_edge_shifted:
  "np_histogram [0, 2512298968886651 / 2 ^ 74] 4 0 period_double = Inr [1, 1, 0, 0]"
  by (simp add: np_histogram_def Let_def upto_0_3 period_double_def)

lemma cfg_G4_double_positive:
  "0 < Q_macro cfg_G4_double" "0 < beam_area_transverse cfg_G4_double"
  using period_double_pos
  by (simp_all add: Q_macro_def Q_total_in_one_period_def T_laser_period_def
      beam_area_transverse_def cfg_G4_double_def script_config_def)

lemma field_scale_double_pos: "0 < field_scale_double"
  using cfg_G4_double_positive period_double_pos
  by (simp add: field_scale_double_def cfg_G4_double_basic)

lemma histogram_at_edge:
  "np_histogram (current_s_mod_of cfg_G4_double Y_edge) (N_grid_s cfg_G4_double) 0
     (period_length_s cfg_G4_double) = Inr [1, 0, 1, 0]"
  unfolding current_s_mod_edge cfg_G4_double_basic by (rule histogram_edge)

lemma histogram_at_edge_shifted:
  "np_histogram (current_s_mod_of cfg_G4_double Y_edge_shifted) (N_grid_s cfg_G4_double) 0
     (period_length_s cfg_G4_double) = Inr [1, 1, 0, 0]"
  unfolding current_s_mod_edge_shifted cfg_G4_double_basic by (rule histogram_edge_shifted)

lemma Ez_complex_grid_edge:
  "Ez_complex_grid_of cfg_G4_double (rho_s_of cfg_G4_double [1, 0, 1, 0]) =
     [Complex 0 (- (field_scale_double / 2)), Complex 0 (field_scale_double / 2),
      Complex 0 (- (field_scale_double / 2)), Complex 0 (field_scale_double / 2)]"
proof -
  have L: "period_length_s cfg_G4_double \<noteq> 0" and e: "const_epsilon_0 cfg_G4_double \<noteq> 0"
    using period_double_pos by (simp_all add: cfg_G4_double_basic)
  have rho: "rho_s_of cfg_G4_double [1, 0, 1, 0] =
      [- Q_macro cfg_G4_double / (ds_grid cfg_G4_double * beam_area_transverse cfg_G4_double), 0,
       - Q_macro cfg_G4_double / (ds_grid cfg_G4_double * beam_area_transverse cfg_G4_double), 0]"
    by (simp add: rho_s_of_def)
  show ?thesis
    unfolding rho four_bin_field[OF cfg_G4_double_basic(1) L e]
    by (simp add: field_scale_double_def field_simps)
qed

lemma Ez_complex_grid_edge_shifted:
  "Ez_complex_grid_of cfg_G4_double (rho_s_of cfg_G4_double [1, 1, 0, 0]) =
     [Complex field_scale_double 0, Complex (- field_scale_double) 0,
      Complex (- field_scale_double) 0, Complex field_scale_double 0]"
proof -
  have L: "period_length_s cfg_G4_double \<noteq> 0" and e: "const_epsilon_0 cfg_G4_double \<noteq> 0"
    using period_double_pos by (simp_all add: cfg_G4_double_basic)
  have rho: "rho_s_of cfg_G4_double [1, 1, 0, 0] =
      [- Q_macro cfg_G4_double / (ds_grid cfg_G4_double * beam_area_transverse cfg_G4_double),
       - Q_macro cfg_G4_double / (ds_grid cfg_G4_double * beam_area_transverse cfg_G4_double),
       0, 0]"
    by (simp add: rho_s_of_def)
  show ?thesis
    unfolding rho four_bin_field[OF cfg_G4_double_basic(1) L e]
    by (simp add: field_scale_double_def field_simps)
qed

lemma Ez_s_grid_edge: "Ez_s_grid_at cfg_G4_double Y_edge = Inr [0, 0, 0, 0]"
  unfolding Ez_s_grid_at_def histogram_at_edge bindE_Inr Ez_s_grid_of_def Ez_complex_grid_edge
  by simp

lemma Ez_s_grid_edge_shifted:
  "Ez_s_grid_at cfg_G4_double Y_edge_shifted =
     Inr [field_scale_double, - field_scale_double, - field_scale_double, field_scale_double]"
  unfolding Ez_s_grid_at_def histogram_at_edge_shifted bindE_Inr Ez_s_grid_of_def
    Ez_complex_grid_edge_shifted
  by simp

lemma interp_edge: "Ez_particles_interp_of cfg_G4_double Y_edge = Inr [0, 0]"
  unfolding Ez_particles_interp_of_def Ez_s_grid_edge current_s_mod_edge indices_edge bindE_Inr
  by (simp add: np_take_def)

lemma interp_edge_shifted:
  "Ez_particles_interp_of cfg_G4_double Y_edge_shifted =
     Inr [- field_scale_double, field_scale_double]"
  unfolding Ez_particles_interp_of_def Ez_s_grid_edge_shifted current_s_mod_edge_shifted
    indices_edge_shifted bindE_Inr
  by (simp add: np_take_def)

lemma round_double_exact_sum:
  "round_double (period_double + period_double) = period_double + period_double"
proof -
  have x: "period_double + period_double = 5024597937773303 / 2 ^ 73"
    by (simp add: period_double_def)
  have "round_double (5024597937773303 / 2 ^ 73) =
      of_int (round_half_even ((5024597937773303 / 2 ^ 73) / 2 powi (- 21 - 52))) * 2 powi (- 21 - 52)"
    by (rule round_double_eval) (simp_all add: power_int_minus field_simps)
  also have "(5024597937773303 / 2 ^ 73) / 2 powi (- 21 - 52) = (of_int 5024597937773303 :: real)"
    by (simp add: power_int_minus field_simps)
  finally show ?thesis unfolding x round_half_even_int by (simp add: power_int_minus field_simps)
qed

subsection \<open>The transform of a uniform offset\<close>










subsection \<open>The quarter phases after a drift\<close>









section \<open>The claims\<close>

text \<open>
  C1. For every non-empty ensemble of \<open>N\<close> phases and every harmonic count \<open>N_h \<ge> 1\<close>, the
  harmonic solver returns for each particle the field \<open>-C * (\<Sum>n = 1..N_h. (b_n / n) *
  sin (n * theta_i))\<close>, where \<open>b_n\<close> is the mean over all particles of \<open>cos (n * theta)\<close>
  and \<open>C\<close> is \<open>Ez_const_factor\<close>. The array of bunching factors computed for any harmonic
  count lists the values of one function of the phases and of \<open>n\<close>, so \<open>b_n\<close> does not
  depend on the harmonic count.
\<close>

theorem harmonic_field_formula:
  assumes "current_theta \<noteq> []" "length current_theta = nat (N_particles cfg)"
    "1 \<le> N_harmonics_Ez cfg"
  shows "Ez_particles_of cfg current_theta =
           Inr (map (spec_Ez (Ez_const_factor cfg) (N_harmonics_Ez cfg) current_theta)
                  current_theta) \<and>
         (\<forall>N_h\<ge>1. bn_array_of (cfg\<lparr>N_harmonics_Ez := N_h\<rparr>) current_theta =
            Inr (map (\<lambda>n. Some (spec_b current_theta n)) [1..N_h]))"
proof
  show "Ez_particles_of cfg current_theta =
           Inr (map (spec_Ez (Ez_const_factor cfg) (N_harmonics_Ez cfg) current_theta)
                  current_theta)"
    using assms by (intro Ez_particles_of_ok) simp_all
next
  show "\<forall>N_h\<ge>1. bn_array_of (cfg\<lparr>N_harmonics_Ez := N_h\<rparr>) current_theta =
            Inr (map (\<lambda>n. Some (spec_b current_theta n)) [1..N_h])"
    using bn_array_of_ok[OF assms(1), of "cfg\<lparr>N_harmonics_Ez := N_h\<rparr>" for N_h] by simp
qed

theorem harmonic_field_formula_witness:
  "quarter_phases \<noteq> [] \<and> length quarter_phases = nat (N_particles cfg_H4) \<and>
   1 \<le> N_harmonics_Ez cfg_H4 \<and>
   Ez_particles_of cfg_H4 quarter_phases =
     Inr (map (spec_Ez (Ez_const_factor cfg_H4) (N_harmonics_Ez cfg_H4) quarter_phases)
            quarter_phases) \<and>
   (1::int) \<le> 2 \<and>
   bn_array_of (cfg_H4\<lparr>N_harmonics_Ez := 2\<rparr>) quarter_phases =
     Inr (map (\<lambda>n. Some (spec_b quarter_phases n)) [1..2])"
proof -
  have h1: "quarter_phases \<noteq> []" by (simp add: quarter_phases_def)
  have h2: "length quarter_phases = nat (N_particles cfg_H4)"
    by (simp add: quarter_phases_def cfg_H4_def)
  have h3: "1 \<le> N_harmonics_Ez cfg_H4" by (simp add: cfg_H4_def)
  show ?thesis using harmonic_field_formula[OF h1 h2 h3] h1 h2 h3 by simp
qed

text \<open>
  C2. For every state \<open>Y\<close> of \<open>2N\<close> entries and every \<open>z\<close>, both vector fields return a
  derivative of \<open>2N\<close> entries with \<open>d(eta_i)/dz = K_eta * F_i\<close>, where \<open>F\<close> is the field
  sample of the variant's solver, and \<open>d(position_i)/dz = K_drift * eta_i\<close>, which reads
  no other particle. \<open>K_eta\<close> is \<open>-e / (gamma_ref * m_e * c\<^sup>2)\<close> in the harmonic variant and
  \<open>(-e) * (-1 / (gamma_ref * m_e * c\<^sup>2))\<close> in the grid variant; \<open>K_drift\<close> is
  \<open>k_laser / gamma_ref\<^sup>2\<close> and \<open>1 / gamma_ref\<^sup>2\<close>.
\<close>

theorem collective_vector_field_contract:
  assumes "length Y = 2 * n" "n = nat (N_particles cfg)" "0 \<le> N_particles cfg"
    "0 \<le> N_harmonics_Ez cfg" "1 \<le> N_grid_s cfg" "0 < period_length_s cfg"
  shows "(\<exists>F dYdz. Ez_particles_of cfg (stride2 1 Y) = Inr F \<and>
            collective_ode cfg z Y = Inr dYdz \<and> length dYdz = 2 * n \<and>
            (\<forall>i<n. dYdz ! (2 * i) = eta_change_factor cfg * F ! i \<and>
                   dYdz ! (2 * i + 1) = theta_change_factor cfg * Y ! (2 * i))) \<and>
         (\<exists>F dYdz. Ez_particles_interp_of cfg Y = Inr F \<and>
            collective_ode_fft cfg z Y = Inr dYdz \<and> length dYdz = 2 * n \<and>
            (\<forall>i<n. dYdz ! (2 * i) = (- const_e cfg) * F ! i * eta_change_factor_ode cfg \<and>
                   dYdz ! (2 * i + 1) = s_change_factor_ode cfg * Y ! (2 * i))) \<and>
         eta_change_factor cfg =
           - const_e cfg / (gamma_ref cfg * const_m_e cfg * (const_c cfg)\<^sup>2) \<and>
         eta_change_factor_ode cfg =
           - 1 / (gamma_ref cfg * const_m_e cfg * (const_c cfg)\<^sup>2) \<and>
         theta_change_factor cfg = (2 * pi / lambda_laser cfg) / (gamma_ref cfg)\<^sup>2 \<and>
         s_change_factor_ode cfg = 1 / (gamma_ref cfg)\<^sup>2"
proof -
  have H: "\<exists>F dYdz. Ez_particles_of cfg (stride2 1 Y) = Inr F \<and>
            collective_ode cfg z Y = Inr dYdz \<and> length dYdz = 2 * n \<and>
            (\<forall>i<n. dYdz ! (2 * i) = eta_change_factor cfg * F ! i \<and>
                   dYdz ! (2 * i + 1) = theta_change_factor cfg * Y ! (2 * i))"
    using collective_ode_ok[OF assms(1-4), of z] by blast
  have G: "\<exists>F dYdz. Ez_particles_interp_of cfg Y = Inr F \<and>
            collective_ode_fft cfg z Y = Inr dYdz \<and> length dYdz = 2 * n \<and>
            (\<forall>i<n. dYdz ! (2 * i) = (- const_e cfg) * F ! i * eta_change_factor_ode cfg \<and>
                   dYdz ! (2 * i + 1) = s_change_factor_ode cfg * Y ! (2 * i))"
    using collective_ode_fft_ok[OF assms(1,5), of z] assms(6) by fastforce
  show ?thesis
    using H G
    by (simp add: eta_change_factor_def eta_change_factor_ode_def theta_change_factor_def
        s_change_factor_ode_def k_laser_def gamma_ref_sq_def)
qed

theorem collective_vector_field_contract_witness:
  "length Y_G4 = 2 * 3 \<and> 3 = nat (N_particles cfg_G4) \<and> 0 \<le> N_particles cfg_G4 \<and>
   0 \<le> N_harmonics_Ez cfg_G4 \<and> 1 \<le> N_grid_s cfg_G4 \<and> 0 < period_length_s cfg_G4 \<and>
   (\<exists>F dYdz. Ez_particles_of cfg_G4 (stride2 1 Y_G4) = Inr F \<and>
      collective_ode cfg_G4 0 Y_G4 = Inr dYdz \<and> length dYdz = 2 * 3 \<and>
      (2::nat) < 3 \<and> dYdz ! (2 * 2) = eta_change_factor cfg_G4 * F ! 2 \<and>
      dYdz ! (2 * 2 + 1) = theta_change_factor cfg_G4 * Y_G4 ! (2 * 2)) \<and>
   (\<exists>F dYdz. Ez_particles_interp_of cfg_G4 Y_G4 = Inr F \<and>
      collective_ode_fft cfg_G4 0 Y_G4 = Inr dYdz \<and> length dYdz = 2 * 3 \<and>
      (2::nat) < 3 \<and>
      dYdz ! (2 * 2) = (- const_e cfg_G4) * F ! 2 * eta_change_factor_ode cfg_G4 \<and>
      dYdz ! (2 * 2 + 1) = s_change_factor_ode cfg_G4 * Y_G4 ! (2 * 2))"
proof -
  have h1: "length Y_G4 = 2 * 3" by (simp add: Y_G4_def)
  have h2: "3 = nat (N_particles cfg_G4)" and h3: "0 \<le> N_particles cfg_G4"
    and h4: "0 \<le> N_harmonics_Ez cfg_G4" and h5: "1 \<le> N_grid_s cfg_G4"
    and h6: "0 < period_length_s cfg_G4"
    by (simp_all add: cfg_G4_basic)
  have lt: "(2::nat) < 3" by simp
  note T = collective_vector_field_contract[OF h1 h2 h3 h4 h5 h6, of 0]
  from T obtain F dYdz where a: "Ez_particles_of cfg_G4 (stride2 1 Y_G4) = Inr F"
    "collective_ode cfg_G4 0 Y_G4 = Inr dYdz" "length dYdz = 2 * 3"
    "\<forall>i<3. dYdz ! (2 * i) = eta_change_factor cfg_G4 * F ! i \<and>
            dYdz ! (2 * i + 1) = theta_change_factor cfg_G4 * Y_G4 ! (2 * i)"
    by blast
  from T obtain F' dYdz' where b: "Ez_particles_interp_of cfg_G4 Y_G4 = Inr F'"
    "collective_ode_fft cfg_G4 0 Y_G4 = Inr dYdz'" "length dYdz' = 2 * 3"
    "\<forall>i<3. dYdz' ! (2 * i) = (- const_e cfg_G4) * F' ! i * eta_change_factor_ode cfg_G4 \<and>
            dYdz' ! (2 * i + 1) = s_change_factor_ode cfg_G4 * Y_G4 ! (2 * i)"
    by blast
  have a': "dYdz ! (2 * 2) = eta_change_factor cfg_G4 * F ! 2 \<and>
      dYdz ! (2 * 2 + 1) = theta_change_factor cfg_G4 * Y_G4 ! (2 * 2)"
    using a(4) lt by blast
  have b': "dYdz' ! (2 * 2) = (- const_e cfg_G4) * F' ! 2 * eta_change_factor_ode cfg_G4 \<and>
      dYdz' ! (2 * 2 + 1) = s_change_factor_ode cfg_G4 * Y_G4 ! (2 * 2)"
    using b(4) lt by blast
  show ?thesis
    using h1 h2 h3 h4 h5 h6 a(1-3) a' b(1-3) b' lt by blast
qed




text \<open>
  C4, as stated, fails. With four bins, two particles in the first one and one particle
  in the second, the grid field in the first bin is \<open>field_scale_G4\<close>, which is positive,
  while the sample of the first particle, which lies in that bin, is \<open>- field_scale_G4\<close>.
\<close>

theorem sample_equals_grid_value_counterexample:
  "Ez_s_grid_at cfg_G4 Y_G4 =
     Inr [field_scale_G4, - (2 * field_scale_G4), - field_scale_G4, 2 * field_scale_G4] \<and>
   map (particle_grid_index cfg_G4) (current_s_mod_of cfg_G4 Y_G4) = [0, 0, 1] \<and>
   Ez_particles_interp_of cfg_G4 Y_G4 =
     Inr [- field_scale_G4, - field_scale_G4, 2 * field_scale_G4] \<and>
   - field_scale_G4 \<noteq> field_scale_G4"
  using Ez_s_grid_at_Y_G4 indices_Y_G4 interp_Y_G4 field_scale_G4_pos by simp

text \<open>
  C4, amended. For every particle the field sample is the negated grid field value at the
  particle's grid index: the source writes \<^verbatim>\<open>-Ez_s_grid[particle_grid_indices]\<close>.
\<close>

theorem sample_is_negated_grid_value:
  assumes "1 \<le> N_grid_s cfg" "0 < period_length_s cfg"
  shows "\<exists>Ez_s_grid Ez_particles_interp.
           Ez_s_grid_at cfg Y = Inr Ez_s_grid \<and>
           Ez_particles_interp_of cfg Y = Inr Ez_particles_interp \<and>
           length Ez_particles_interp = length (current_s_mod_of cfg Y) \<and>
           (\<forall>i<length Ez_particles_interp.
              Ez_particles_interp ! i =
                - Ez_s_grid ! nat (particle_grid_index cfg (current_s_mod_of cfg Y ! i)))"
proof -
  obtain G where G: "Ez_s_grid_at cfg Y = Inr G" "length G = nat (N_grid_s cfg)"
    using Ez_s_grid_at_ok[OF assms(1), of Y] assms(2) by fastforce
  show ?thesis
    using G Ez_particles_interp_of_ok[OF assms(1) G] by simp
qed

theorem sample_is_negated_grid_value_witness:
  "1 \<le> N_grid_s cfg_G4 \<and> 0 < period_length_s cfg_G4 \<and>
   (\<exists>Ez_s_grid Ez_particles_interp.
      Ez_s_grid_at cfg_G4 Y_G4 = Inr Ez_s_grid \<and>
      Ez_particles_interp_of cfg_G4 Y_G4 = Inr Ez_particles_interp \<and>
      length Ez_particles_interp = length (current_s_mod_of cfg_G4 Y_G4) \<and>
      2 < length Ez_particles_interp \<and>
      Ez_particles_interp ! 2 =
        - Ez_s_grid ! nat (particle_grid_index cfg_G4 (current_s_mod_of cfg_G4 Y_G4 ! 2)))"
proof -
  have h1: "1 \<le> N_grid_s cfg_G4" and h2: "0 < period_length_s cfg_G4"
    by (simp_all add: cfg_G4_basic)
  from sample_is_negated_grid_value[OF h1 h2, of Y_G4]
  obtain G F where a: "Ez_s_grid_at cfg_G4 Y_G4 = Inr G" "Ez_particles_interp_of cfg_G4 Y_G4 = Inr F"
    "length F = length (current_s_mod_of cfg_G4 Y_G4)"
    "\<forall>i<length F. F ! i = - G ! nat (particle_grid_index cfg_G4 (current_s_mod_of cfg_G4 Y_G4 ! i))"
    by blast
  have len: "2 < length F" using a(3) by (simp add: current_s_mod_of_Y_G4)
  then have "F ! 2 = - G ! nat (particle_grid_index cfg_G4 (current_s_mod_of cfg_G4 Y_G4 ! 2))"
    using a(4) by blast
  then show ?thesis using h1 h2 a(1-3) len by blast
qed

text \<open>
  C5, as stated, fails in double arithmetic. With four bins, a particle at half the period
  lies in the third bin; the double sum of its position and the period is rounded down, and
  the particle at that sum lies in the second bin. With a second particle at the origin the
  field samples change from zero to minus and plus \<open>field_scale_double\<close>.
\<close>

theorem rounded_period_shift_counterexample:
  "Y_edge ! 3 = period_double / 2 \<and>
   period_length_s cfg_G4_double = period_double \<and>
   Y_edge_shifted = Y_edge[3 := round_double (period_double / 2 + period_double)] \<and>
   round_double (period_double / 2 + period_double) = 7536896906659954 / 2 ^ 74 \<and>
   map (particle_grid_index cfg_G4_double) (current_s_mod_of cfg_G4_double Y_edge) = [0, 2] \<and>
   map (particle_grid_index cfg_G4_double) (current_s_mod_of cfg_G4_double Y_edge_shifted) =
     [0, 1] \<and>
   Ez_particles_interp_of cfg_G4_double Y_edge = Inr [0, 0] \<and>
   Ez_particles_interp_of cfg_G4_double Y_edge_shifted =
     Inr [- field_scale_double, field_scale_double] \<and>
   0 < field_scale_double"
proof -
  have a: "Y_edge ! 3 = period_double / 2" by (simp add: Y_edge_def)
  have b: "Y_edge_shifted = Y_edge[3 := round_double (period_double / 2 + period_double)]"
    by (simp add: Y_edge_def Y_edge_shifted_def)
  have c: "map (particle_grid_index cfg_G4_double) (current_s_mod_of cfg_G4_double Y_edge) = [0, 2]"
    unfolding current_s_mod_edge by (rule indices_edge)
  have d: "map (particle_grid_index cfg_G4_double) (current_s_mod_of cfg_G4_double Y_edge_shifted) =
     [0, 1]"
    unfolding current_s_mod_edge_shifted by (rule indices_edge_shifted)
  show ?thesis
    using a b c d cfg_G4_double_basic(2) round_double_edge_sum interp_edge interp_edge_shifted
      field_scale_double_pos
    by blast
qed

text \<open>
  C5, amended. Whenever the double sum of a particle's position and the period is exact,
  replacing the position by that sum leaves the particle's bin index, the field samples
  and the whole right-hand side unchanged.
\<close>

theorem exact_period_shift_invariance:
  assumes "0 < period_length_s cfg" "2 * i + 1 < length Y"
    "round_double (Y ! (2 * i + 1) + period_length_s cfg) = Y ! (2 * i + 1) + period_length_s cfg"
  shows "particle_grid_index cfg
           (np_mod (round_double (Y ! (2 * i + 1) + period_length_s cfg)) (period_length_s cfg)) =
           particle_grid_index cfg (np_mod (Y ! (2 * i + 1)) (period_length_s cfg)) \<and>
         Ez_particles_interp_of cfg
           (Y[2 * i + 1 := round_double (Y ! (2 * i + 1) + period_length_s cfg)]) =
           Ez_particles_interp_of cfg Y \<and>
         collective_ode_fft cfg z
           (Y[2 * i + 1 := round_double (Y ! (2 * i + 1) + period_length_s cfg)]) =
           collective_ode_fft cfg z Y"
proof -
  let ?Y' = "Y[2 * i + 1 := Y ! (2 * i + 1) + period_length_s cfg]"
  have L: "period_length_s cfg \<noteq> 0" using assms(1) by simp
  have s: "current_s_mod_of cfg ?Y' = current_s_mod_of cfg Y"
    by (rule current_s_mod_of_period[OF L assms(2)])
  have g: "Ez_s_grid_at cfg ?Y' = Ez_s_grid_at cfg Y"
    unfolding Ez_s_grid_at_def s ..
  have F: "Ez_particles_interp_of cfg ?Y' = Ez_particles_interp_of cfg Y"
    unfolding Ez_particles_interp_of_def s g ..
  have e: "stride2 0 ?Y' = stride2 0 Y" by (rule stride2_0_update)
  have z: "map (\<lambda>y. 0::real) ?Y' = map (\<lambda>y. 0) Y"
    by (simp add: map_replicate_const)
  have "collective_ode_fft cfg z ?Y' = collective_ode_fft cfg z Y"
    unfolding collective_ode_fft_def F e z ..
  then show ?thesis unfolding assms(3) using F np_mod_plus_period[OF L] by simp
qed

theorem exact_period_shift_invariance_witness:
  "0 < period_length_s cfg_G4_double \<and> 2 * 1 + 1 < length Y_exact \<and>
   round_double (Y_exact ! (2 * 1 + 1) + period_length_s cfg_G4_double) =
     Y_exact ! (2 * 1 + 1) + period_length_s cfg_G4_double \<and>
   particle_grid_index cfg_G4_double
     (np_mod (round_double (Y_exact ! (2 * 1 + 1) + period_length_s cfg_G4_double))
        (period_length_s cfg_G4_double)) =
     particle_grid_index cfg_G4_double
       (np_mod (Y_exact ! (2 * 1 + 1)) (period_length_s cfg_G4_double)) \<and>
   Ez_particles_interp_of cfg_G4_double
     (Y_exact[2 * 1 + 1 :=
        round_double (Y_exact ! (2 * 1 + 1) + period_length_s cfg_G4_double)]) =
     Ez_particles_interp_of cfg_G4_double Y_exact \<and>
   collective_ode_fft cfg_G4_double 0
     (Y_exact[2 * 1 + 1 :=
        round_double (Y_exact ! (2 * 1 + 1) + period_length_s cfg_G4_double)]) =
     collective_ode_fft cfg_G4_double 0 Y_exact"
proof -
  have h1: "0 < period_length_s cfg_G4_double"
    using period_double_pos by (simp add: cfg_G4_double_basic)
  have h2: "2 * 1 + 1 < length Y_exact" by (simp add: Y_exact_def)
  have h3: "round_double (Y_exact ! (2 * 1 + 1) + period_length_s cfg_G4_double) =
     Y_exact ! (2 * 1 + 1) + period_length_s cfg_G4_double"
    using round_double_exact_sum by (simp add: Y_exact_def cfg_G4_double_basic)
  show ?thesis using exact_period_shift_invariance[OF h1 h2 h3, of 0] h1 h2 h3 by blast
qed

text \<open>
  C6. For every real position the grid index lies between 0 and \<open>N_grid_s - 1\<close>, so
  reading the grid field at it is in bounds; a position equal to the period maps to the
  last bin.
\<close>

theorem grid_index_in_bounds:
  assumes "1 \<le> N_grid_s cfg" "0 < period_length_s cfg"
    "length (Ez_s_grid :: real list) = nat (N_grid_s cfg)"
  shows "0 \<le> particle_grid_index cfg s \<and> particle_grid_index cfg s \<le> N_grid_s cfg - 1 \<and>
         np_take Ez_s_grid (particle_grid_index cfg s) =
           Inr (Ez_s_grid ! nat (particle_grid_index cfg s)) \<and>
         particle_grid_index cfg (period_length_s cfg) = N_grid_s cfg - 1"
proof -
  have r: "0 \<le> particle_grid_index cfg s" "particle_grid_index cfg s \<le> N_grid_s cfg - 1"
    using particle_grid_index_range[OF assms(1), of s] by simp_all
  have t: "np_take Ez_s_grid (particle_grid_index cfg s) =
           Inr (Ez_s_grid ! nat (particle_grid_index cfg s))"
    using r assms(1,3) by (intro np_take_in_range) simp_all
  have "period_length_s cfg / ds_grid cfg = of_int (N_grid_s cfg)"
    using assms(1,2) by (simp add: ds_grid_def)
  then have "particle_grid_index cfg (period_length_s cfg) = N_grid_s cfg - 1"
    by (simp add: particle_grid_index_def np_clip_def)
  then show ?thesis using r t by simp
qed

theorem grid_index_in_bounds_witness:
  "1 \<le> N_grid_s cfg_G4 \<and> 0 < period_length_s cfg_G4 \<and>
   length [1, 2, 3, 4 :: real] = nat (N_grid_s cfg_G4) \<and>
   0 \<le> particle_grid_index cfg_G4 (- 1) \<and>
   particle_grid_index cfg_G4 (- 1) \<le> N_grid_s cfg_G4 - 1 \<and>
   np_take [1, 2, 3, 4 :: real] (particle_grid_index cfg_G4 (- 1)) =
     Inr ([1, 2, 3, 4 :: real] ! nat (particle_grid_index cfg_G4 (- 1))) \<and>
   particle_grid_index cfg_G4 (period_length_s cfg_G4) = N_grid_s cfg_G4 - 1"
proof -
  have h1: "1 \<le> N_grid_s cfg_G4" and h2: "0 < period_length_s cfg_G4"
    and h3: "length [1, 2, 3, 4 :: real] = nat (N_grid_s cfg_G4)"
    by (simp_all add: cfg_G4_basic)
  show ?thesis using grid_index_in_bounds[OF h1 h2 h3, of "- 1"] h1 h2 h3 by blast
qed

text \<open>
  C7, as stated, fails. With four bins, two particles in the first one and one particle
  in the second, the inverse transform has an imaginary part of magnitude
  \<open>field_scale_G4 / 4\<close> in every bin, a quarter of the real field in the first bin and far
  above any round-off tolerance, and the right-hand side still returns a derivative.
\<close>

theorem imaginary_residual_counterexample:
  "np_histogram (current_s_mod_of cfg_G4 Y_G4) (N_grid_s cfg_G4) 0 (period_length_s cfg_G4) =
     Inr [2, 1, 0, 0] \<and>
   map Im (Ez_complex_grid_of cfg_G4 (rho_s_of cfg_G4 [2, 1, 0, 0])) =
     [- (field_scale_G4 / 4), field_scale_G4 / 4, - (field_scale_G4 / 4), field_scale_G4 / 4] \<and>
   100000 < field_scale_G4 \<and>
   collective_ode_fft cfg_G4 0 Y_G4 =
     Inr [(- const_e cfg_G4) * (- field_scale_G4) * eta_change_factor_ode cfg_G4, 0,
          (- const_e cfg_G4) * (- field_scale_G4) * eta_change_factor_ode cfg_G4, 0,
          (- const_e cfg_G4) * (2 * field_scale_G4) * eta_change_factor_ode cfg_G4, 0]"
proof -
  have "np_histogram (current_s_mod_of cfg_G4 Y_G4) (N_grid_s cfg_G4) 0 (period_length_s cfg_G4) =
     Inr [2, 1, 0, 0]"
    unfolding current_s_mod_of_Y_G4 cfg_G4_basic by (rule histogram_Y_G4)
  moreover have "map Im (Ez_complex_grid_of cfg_G4 (rho_s_of cfg_G4 [2, 1, 0, 0])) =
     [- (field_scale_G4 / 4), field_scale_G4 / 4, - (field_scale_G4 / 4), field_scale_G4 / 4]"
    unfolding Ez_complex_grid_G4 by simp
  ultimately show ?thesis
    using field_scale_G4_large collective_ode_fft_Y_G4[of 0] by blast
qed

text \<open>
  C7, amended. The grid solver keeps the real part of the inverse transform and never
  examines the imaginary part: for every state of \<open>2N\<close> entries the right-hand side
  returns normally, and \<open>d(eta_i)/dz\<close> is computed from the real part of the transform at
  the particle's bin.
\<close>

theorem real_part_taken_unchecked:
  assumes "length Y = 2 * n" "1 \<le> N_grid_s cfg" "0 < period_length_s cfg"
  shows "\<exists>counts dYdz.
           np_histogram (current_s_mod_of cfg Y) (N_grid_s cfg) 0 (period_length_s cfg) =
             Inr counts \<and>
           Ez_s_grid_at cfg Y = Inr (map Re (Ez_complex_grid_of cfg (rho_s_of cfg counts))) \<and>
           collective_ode_fft cfg z Y = Inr dYdz \<and>
           (\<forall>i<n. dYdz ! (2 * i) =
              (- const_e cfg) *
              (- Re (Ez_complex_grid_of cfg (rho_s_of cfg counts) !
                       nat (particle_grid_index cfg (current_s_mod_of cfg Y ! i)))) *
              eta_change_factor_ode cfg)"
proof -
  obtain counts where c:
    "np_histogram (current_s_mod_of cfg Y) (N_grid_s cfg) 0 (period_length_s cfg) = Inr counts"
    "length counts = nat (N_grid_s cfg)"
    using np_histogram_ok[OF assms(2), of 0 "period_length_s cfg"] assms(3) by fastforce
  let ?C = "Ez_complex_grid_of cfg (rho_s_of cfg counts)"
  have G: "Ez_s_grid_at cfg Y = Inr (map Re ?C)"
    by (simp add: Ez_s_grid_at_def c Ez_s_grid_of_def)
  have lenC: "length ?C = nat (N_grid_s cfg)" by (simp add: c)
  have F: "Ez_particles_interp_of cfg Y =
      Inr (map (\<lambda>s. - map Re ?C ! nat (particle_grid_index cfg s)) (current_s_mod_of cfg Y))"
    by (rule Ez_particles_interp_of_ok[OF assms(2) G]) (simp add: c(2))
  obtain F' dYdz where d: "Ez_particles_interp_of cfg Y = Inr F'" "length F' = n"
    "collective_ode_fft cfg z Y = Inr dYdz"
    "\<forall>i<n. dYdz ! (2 * i) = (- const_e cfg) * F' ! i * eta_change_factor_ode cfg \<and>
           dYdz ! (2 * i + 1) = s_change_factor_ode cfg * Y ! (2 * i)"
    using collective_ode_fft_ok[OF assms(1,2), of z] assms(3) by fastforce
  have F': "F' = map (\<lambda>s. - map Re ?C ! nat (particle_grid_index cfg s)) (current_s_mod_of cfg Y)"
    using F d(1) by simp
  have "dYdz ! (2 * i) =
              (- const_e cfg) *
              (- Re (?C ! nat (particle_grid_index cfg (current_s_mod_of cfg Y ! i)))) *
              eta_change_factor_ode cfg" if "i < n" for i
  proof -
    have i: "i < length (current_s_mod_of cfg Y)"
      using that length_current_s_mod_of[OF assms(1)] by simp
    have "nat (particle_grid_index cfg (current_s_mod_of cfg Y ! i)) < length ?C"
      using particle_grid_index_range[OF assms(2), of "current_s_mod_of cfg Y ! i"] assms(2) lenC
      by linarith
    then have "F' ! i = - Re (?C ! nat (particle_grid_index cfg (current_s_mod_of cfg Y ! i)))"
      using i by (simp add: F')
    then show ?thesis using d(4) that by simp
  qed
  then show ?thesis using c(1) G d(3) by blast
qed

theorem real_part_taken_unchecked_witness:
  "length Y_G4 = 2 * 3 \<and> 1 \<le> N_grid_s cfg_G4 \<and> 0 < period_length_s cfg_G4 \<and>
   (\<exists>counts dYdz.
      np_histogram (current_s_mod_of cfg_G4 Y_G4) (N_grid_s cfg_G4) 0 (period_length_s cfg_G4) =
        Inr counts \<and>
      Ez_s_grid_at cfg_G4 Y_G4 = Inr (map Re (Ez_complex_grid_of cfg_G4 (rho_s_of cfg_G4 counts))) \<and>
      collective_ode_fft cfg_G4 0 Y_G4 = Inr dYdz \<and>
      (2::nat) < 3 \<and>
      dYdz ! (2 * 2) =
         (- const_e cfg_G4) *
         (- Re (Ez_complex_grid_of cfg_G4 (rho_s_of cfg_G4 counts) !
                  nat (particle_grid_index cfg_G4 (current_s_mod_of cfg_G4 Y_G4 ! 2)))) *
         eta_change_factor_ode cfg_G4)"
proof -
  have h1: "length Y_G4 = 2 * 3" by (simp add: Y_G4_def)
  have h2: "1 \<le> N_grid_s cfg_G4" and h3: "0 < period_length_s cfg_G4"
    by (simp_all add: cfg_G4_basic)
  have lt: "(2::nat) < 3" by simp
  from real_part_taken_unchecked[OF h1 h2 h3, of 0]
  obtain counts dYdz where a:
    "np_histogram (current_s_mod_of cfg_G4 Y_G4) (N_grid_s cfg_G4) 0 (period_length_s cfg_G4) =
        Inr counts"
    "Ez_s_grid_at cfg_G4 Y_G4 = Inr (map Re (Ez_complex_grid_of cfg_G4 (rho_s_of cfg_G4 counts)))"
    "collective_ode_fft cfg_G4 0 Y_G4 = Inr dYdz"
    "\<forall>i<3. dYdz ! (2 * i) =
         (- const_e cfg_G4) *
         (- Re (Ez_complex_grid_of cfg_G4 (rho_s_of cfg_G4 counts) !
                  nat (particle_grid_index cfg_G4 (current_s_mod_of cfg_G4 Y_G4 ! i)))) *
         eta_change_factor_ode cfg_G4"
    by blast
  have "dYdz ! (2 * 2) =
         (- const_e cfg_G4) *
         (- Re (Ez_complex_grid_of cfg_G4 (rho_s_of cfg_G4 counts) !
                  nat (particle_grid_index cfg_G4 (current_s_mod_of cfg_G4 Y_G4 ! 2)))) *
         eta_change_factor_ode cfg_G4"
    using a(4) lt by blast
  then show ?thesis using h1 h2 h3 a(1-3) lt by blast
qed

text \<open>
  C8, as stated, fails. With a harmonic count of zero the initialisation of the harmonic
  script succeeds, and the right-hand side evaluated at the initial state returns a
  derivative.
\<close>

theorem zero_harmonic_count_counterexample:
  "N_harmonics_Ez cfg_H0 = 0 \<and>
   init_H cfg_H0 zero_draw zero_draw = Inr [0, 0, 0, 0] \<and>
   collective_ode cfg_H0 0 [0, 0, 0, 0] = Inr [0, 0, 0, 0]"
  using init_H_cfg_H0 collective_ode_cfg_H0[of 0] by (simp add: cfg_H0_def)

text \<open>
  C8, amended. The counts are never validated. In the grid script a grid size or particle
  count that is zero or negative makes the module-level initialisation raise
  ZeroDivisionError or ValueError. In the harmonic script a negative particle count makes
  the initialisation raise one of the two, and the initialisation does not read the
  harmonic count: a negative harmonic count raises ValueError in the right-hand side, and
  with a harmonic count of zero the right-hand side returns normally, with a zero field
  for every particle.
\<close>

theorem counts_not_validated:
  "(N_grid_s cfg \<le> 0 \<or> N_particles cfg \<le> 0 \<longrightarrow>
      init_G cfg nd ud = Inl ZeroDivisionError \<or> init_G cfg nd ud = Inl ValueError) \<and>
   (N_particles cfg < 0 \<longrightarrow>
      init_H cfg nd ud = Inl ZeroDivisionError \<or> init_H cfg nd ud = Inl ValueError) \<and>
   init_H (cfg\<lparr>N_harmonics_Ez := N_h\<rparr>) nd ud = init_H cfg nd ud \<and>
   (N_harmonics_Ez cfg < 0 \<longrightarrow> collective_ode cfg z Y = Inl ValueError) \<and>
   (N_harmonics_Ez cfg = 0 \<and> 0 \<le> N_particles cfg \<and> length Y = 2 * nat (N_particles cfg) \<longrightarrow>
      Ez_particles_of cfg (stride2 1 Y) = Inr (replicate (nat (N_particles cfg)) 0) \<and>
      (\<exists>dYdz. collective_ode cfg z Y = Inr dYdz))"
proof -
  have "\<exists>dYdz. collective_ode cfg z Y = Inr dYdz"
    if "N_harmonics_Ez cfg = 0" "0 \<le> N_particles cfg" "length Y = 2 * nat (N_particles cfg)"
    using collective_ode_ok[OF that(3) refl that(2), of z] that(1) by auto
  then show ?thesis
    using init_G_bad_counts init_H_negative_particles init_H_ignores_harmonics
      collective_ode_negative_harmonics Ez_particles_of_no_harmonics
    by blast
qed

theorem counts_not_validated_witness:
  "(N_grid_s cfg_no_grid \<le> 0 \<or> N_particles cfg_no_grid \<le> 0) \<and>
   init_G cfg_no_grid zero_draw zero_draw = Inl ZeroDivisionError \<and>
   N_particles cfg_negative_particles < 0 \<and>
   init_H cfg_negative_particles zero_draw zero_draw = Inl ValueError \<and>
   init_H (cfg_H0\<lparr>N_harmonics_Ez := 7\<rparr>) zero_draw zero_draw =
     init_H cfg_H0 zero_draw zero_draw \<and>
   N_harmonics_Ez cfg_negative_harmonics < 0 \<and>
   collective_ode cfg_negative_harmonics 0 [0, 0, 0, 0] = Inl ValueError \<and>
   N_harmonics_Ez cfg_H0 = 0 \<and> 0 \<le> N_particles cfg_H0 \<and>
   length [0, 0, 0, 0 :: real] = 2 * nat (N_particles cfg_H0) \<and>
   Ez_particles_of cfg_H0 (stride2 1 [0, 0, 0, 0]) = Inr (replicate (nat (N_particles cfg_H0)) 0) \<and>
   (\<exists>dYdz. collective_ode cfg_H0 0 [0, 0, 0, 0] = Inr dYdz)"
proof -
  have g1: "N_grid_s cfg_no_grid \<le> 0 \<or> N_particles cfg_no_grid \<le> 0"
    by (simp add: cfg_no_grid_def)
  have g2: "init_G cfg_no_grid zero_draw zero_draw \<noteq> Inl ValueError"
    by (simp add: init_G_def cfg_no_grid_def script_config_def k_laser_def
        beam_area_transverse_def)
  have p1: "N_particles cfg_negative_particles < 0" by (simp add: cfg_negative_particles_def)
  have p2: "init_H cfg_negative_particles zero_draw zero_draw \<noteq> Inl ZeroDivisionError"
    by (simp add: init_H_def cfg_negative_particles_def script_config_def k_laser_def
        np_random_normal_def)
  have n1: "N_harmonics_Ez cfg_negative_harmonics < 0" by (simp add: cfg_negative_harmonics_def)
  have z1: "N_harmonics_Ez cfg_H0 = 0" and z2: "0 \<le> N_particles cfg_H0"
    and z3: "length [0, 0, 0, 0 :: real] = 2 * nat (N_particles cfg_H0)"
    by (simp_all add: cfg_H0_def)
  note A = counts_not_validated[of cfg_no_grid zero_draw zero_draw]
  note B = counts_not_validated[of cfg_negative_particles zero_draw zero_draw]
  note C = counts_not_validated[of cfg_H0 zero_draw zero_draw 7 0 "[0, 0, 0, 0]"]
  note D = counts_not_validated[of cfg_negative_harmonics zero_draw zero_draw 0 0 "[0, 0, 0, 0]"]
  have "init_G cfg_no_grid zero_draw zero_draw = Inl ZeroDivisionError"
    using A g1 g2 by blast
  moreover have "init_H cfg_negative_particles zero_draw zero_draw = Inl ValueError"
    using B p1 p2 by blast
  moreover have "init_H (cfg_H0\<lparr>N_harmonics_Ez := 7\<rparr>) zero_draw zero_draw =
     init_H cfg_H0 zero_draw zero_draw"
    using C by blast
  moreover have "collective_ode cfg_negative_harmonics 0 [0, 0, 0, 0] = Inl ValueError"
    using D n1 by blast
  moreover have "Ez_particles_of cfg_H0 (stride2 1 [0, 0, 0, 0]) =
      Inr (replicate (nat (N_particles cfg_H0)) 0) \<and>
      (\<exists>dYdz. collective_ode cfg_H0 0 [0, 0, 0, 0] = Inr dYdz)"
    using C z1 z2 z3 by blast
  ultimately show ?thesis using g1 p1 n1 z1 z2 z3 by blast
qed




text \<open>
  C10. In both scripts the history entry of a snapshot is nan when there are ten particles
  or fewer, and otherwise the standard deviation of the snapshot's \<open>eta\<close> entries divided
  by \<open>sigma_eta0_rel\<close>.
\<close>

theorem history_entry_nan_unless_more_than_ten:
  assumes "j < length sol_y" "length (sol_y ! j) = 2 * nat (N_particles cfg)"
    "sigma_eta0_rel cfg \<noteq> 0"
  shows "history_sigma_eta_ode cfg sol_y ! j =
           (if N_particles cfg \<le> 10 then None
            else Some (spec_std (stride2 0 (sol_y ! j)) / sigma_eta0_rel cfg)) \<and>
         history_sigma_eta_ode_fft cfg sol_y ! j =
           (if N_particles cfg \<le> 10 then None
            else Some (spec_std (stride2 0 (sol_y ! j)) / sigma_eta0_rel cfg))"
proof -
  have "stride2 0 (sol_y ! j) \<noteq> []" if "10 < N_particles cfg"
  proof -
    have "length (stride2 0 (sol_y ! j)) = nat (N_particles cfg)"
      using length_stride2_even[OF assms(2)] by simp
    then show ?thesis using that by auto
  qed
  then have "history_entry cfg (sol_y ! j) =
           (if N_particles cfg \<le> 10 then None
            else Some (spec_std (stride2 0 (sol_y ! j)) / sigma_eta0_rel cfg))"
    by (auto simp: history_entry_def np_std_eq)
  then show ?thesis
    using assms(1) by (simp add: history_sigma_eta_ode_def history_sigma_eta_ode_fft_def)
qed

theorem history_entry_nan_unless_more_than_ten_witness:
  "(0::nat) < length [replicate 22 (0::real)] \<and>
   length ([replicate 22 (0::real)] ! 0) = 2 * nat (N_particles cfg_11) \<and>
   sigma_eta0_rel cfg_11 \<noteq> 0 \<and>
   history_sigma_eta_ode cfg_11 [replicate 22 0] ! 0 =
     (if N_particles cfg_11 \<le> 10 then None
      else Some (spec_std (stride2 0 ([replicate 22 0] ! 0)) / sigma_eta0_rel cfg_11)) \<and>
   history_sigma_eta_ode_fft cfg_11 [replicate 22 0] ! 0 =
     (if N_particles cfg_11 \<le> 10 then None
      else Some (spec_std (stride2 0 ([replicate 22 0] ! 0)) / sigma_eta0_rel cfg_11)) \<and>
   (0::nat) < length [Y_G4] \<and> length ([Y_G4] ! 0) = 2 * nat (N_particles cfg_G4) \<and>
   sigma_eta0_rel cfg_G4 \<noteq> 0 \<and>
   history_sigma_eta_ode cfg_G4 [Y_G4] ! 0 = None \<and>
   history_sigma_eta_ode_fft cfg_G4 [Y_G4] ! 0 = None"
proof -
  have a1: "(0::nat) < length [replicate 22 (0::real)]" by simp
  have a2: "length ([replicate 22 (0::real)] ! 0) = 2 * nat (N_particles cfg_11)"
    by (simp add: cfg_11_def)
  have a3: "sigma_eta0_rel cfg_11 \<noteq> 0" by (simp add: cfg_11_def script_config_def)
  have b1: "(0::nat) < length [Y_G4]" by simp
  have b2: "length ([Y_G4] ! 0) = 2 * nat (N_particles cfg_G4)"
    by (simp add: Y_G4_def cfg_G4_basic)
  have b3: "sigma_eta0_rel cfg_G4 \<noteq> 0" by (simp add: cfg_G4_def script_config_def)
  have b4: "N_particles cfg_G4 \<le> 10" by (simp add: cfg_G4_basic)
  show ?thesis
    using history_entry_nan_unless_more_than_ten[OF a1 a2 a3]
      history_entry_nan_unless_more_than_ten[OF b1 b2 b3] a1 a2 a3 b1 b2 b3 b4
    by simp
qed

end
